theory Spec2Isabelle
  imports Main "HOL-Library.AList" "HOL-Library.Sublist"
begin

section \<open>JSON values and Python dictionaries\<close>

text \<open>
  The catalog \<^verbatim>\<open>sessions.json\<close>, the settings and the archive index are JSON documents
  that the program reads with \<^verbatim>\<open>json.load\<close> and handles as Python dictionaries.
  A dictionary keeps its insertion order, so it is an association list here; the keys of
  a dictionary read from JSON are distinct. JSON numbers are integers in this model
  (time stamps and byte counts); Python integers are unbounded, hence \<^typ>\<open>int\<close>.
\<close>

datatype json =
    JNull
  | JBool bool
  | JInt int
  | JStr string
  | JArr "json list"
  | JObj "(string \<times> json) list"

type_synonym pydict = "(string \<times> json) list"

datatype py_error = TypeError | ValueError | OSError | AttributeError

text \<open>\<^verbatim>\<open>d.get(k, default)\<close>\<close>

definition dict_get :: "pydict \<Rightarrow> string \<Rightarrow> json \<Rightarrow> json" where
  "dict_get d k dflt = (case map_of d k of None \<Rightarrow> dflt | Some v \<Rightarrow> v)"

text \<open>Truth value of a Python object, as \<^verbatim>\<open>if x\<close> and \<^verbatim>\<open>x or y\<close> test it.\<close>

fun truthy :: "json \<Rightarrow> bool" where
  "truthy JNull = False"
| "truthy (JBool b) = b"
| "truthy (JInt n) = (n \<noteq> 0)"
| "truthy (JStr s) = (s \<noteq> [])"
| "truthy (JArr xs) = (xs \<noteq> [])"
| "truthy (JObj kvs) = (kvs \<noteq> [])"

definition py_or :: "json \<Rightarrow> json \<Rightarrow> json" where
  "py_or a b = (if truthy a then a else b)"

text \<open>
  \<^verbatim>\<open>x < n\<close> for an integer \<open>n\<close>: defined on numbers (a Python bool is an integer),
  a \<^verbatim>\<open>TypeError\<close> on every other value.
\<close>

fun py_lt_int :: "json \<Rightarrow> int \<Rightarrow> py_error + bool" where
  "py_lt_int (JInt a) n = Inr (a < n)"
| "py_lt_int (JBool b) n = Inr ((if b then 1 else 0) < n)"
| "py_lt_int _ n = Inl TypeError"

section \<open>Retention policy\<close>

text \<open>
  \<^verbatim>\<open>cutoff_ms = int(time.time() * 1000) - (retention_days * 24 * 60 * 60 * 1000)\<close>,
  with the clock reading \<open>now\<close> in milliseconds passed in.
\<close>

definition cutoff_ms :: "int \<Rightarrow> int \<Rightarrow> int" where
  "cutoff_ms now retention_days = now - (retention_days * 24 * 60 * 60 * 1000)"

text \<open>
  The test both sweeps apply to a catalog row (\<^verbatim>\<open>server.py\<close>, \<^verbatim>\<open>handle_run_archive\<close>
  and \<^verbatim>\<open>archive-sessions.py\<close>, \<^verbatim>\<open>main\<close>):
  \<^verbatim>\<open>updated_at = session.get('updatedAt', 0); if updated_at < cutoff_ms\<close>.
\<close>

definition is_expired :: "int \<Rightarrow> pydict \<Rightarrow> py_error + bool" where
  "is_expired cutoff session = py_lt_int (dict_get session ''updatedAt'' (JInt 0)) cutoff"

text \<open>
  The selection loop of \<^verbatim>\<open>archive-sessions.py\<close>:
  \<^verbatim>\<open>for key, session in sessions.items(): if updated_at < cutoff_ms: to_archive.append(...)\<close>.
  A row whose \<^verbatim>\<open>updatedAt\<close> is not a number ends the script with the exception.
\<close>

fun to_archive :: "int \<Rightarrow> (string \<times> pydict) list \<Rightarrow> py_error + (string \<times> pydict) list" where
  "to_archive cutoff [] = Inr []"
| "to_archive cutoff ((k, session) # rest) =
     (case is_expired cutoff session of
        Inl e \<Rightarrow> Inl e
      | Inr b \<Rightarrow>
          (case to_archive cutoff rest of
             Inl e \<Rightarrow> Inl e
           | Inr sel \<Rightarrow> Inr (if b then (k, session) # sel else sel)))"

section \<open>Strings and paths\<close>

text \<open>
  Python strings are modelled as \<^typ>\<open>string\<close>; the session keys, identifiers and file
  names of this program are ASCII. \<^verbatim>\<open>sub in s\<close>, \<^verbatim>\<open>s.startswith(p)\<close> and
  \<^verbatim>\<open>s.endswith(p)\<close>:
\<close>

fun str_in :: "string \<Rightarrow> string \<Rightarrow> bool" where
  "str_in sub [] = (sub = [])"
| "str_in sub (c # cs) = (prefix sub (c # cs) \<or> str_in sub cs)"

definition startswith :: "string \<Rightarrow> string \<Rightarrow> bool" where
  "startswith s p = prefix p s"

definition endswith :: "string \<Rightarrow> string \<Rightarrow> bool" where
  "endswith s p = prefix (rev p) (rev s)"

text \<open>
  \<^verbatim>\<open>PurePath.name\<close> and \<^verbatim>\<open>PurePath.stem\<close> of a path: the name is the last component
  of the path, and the stem is the name without its last suffix, where a suffix starts at
  the last dot unless that dot is the first or the last character of the name.
\<close>

definition path_name :: "string \<Rightarrow> string" where
  "path_name p = rev (takeWhile (\<lambda>c. c \<noteq> CHR ''/'') (rev p))"

definition path_stem :: "string \<Rightarrow> string" where
  "path_stem p =
     (let name = path_name p;
          suf = takeWhile (\<lambda>c. c \<noteq> CHR ''.'') (rev name);
          i = length name - length suf - 1
      in if length suf < length name \<and> 0 < i \<and> i < length name - 1
         then take i name else name)"

section \<open>Session storage\<close>

type_synonym bytes = "char list"

text \<open>
  An entry of the archive index, with the ten fields \<^verbatim>\<open>archive_session\<close> writes. The
  values copied from the session record stay JSON values.
\<close>

record archive_entry =
  key :: string
  sessionId :: json
  label :: json
  archivedAt :: int
  originalSize :: int
  compressedSize :: int
  updatedAt :: json
  model :: json
  channel :: json
  task :: json

record archive_index =
  sessions :: "archive_entry list"
  totalSize :: int

text \<open>
  The files under \<^verbatim>\<open>SESSIONS_DIR\<close>, each under the path the program gives for it
  relative to that directory, in the order a directory scan yields them; the files of
  \<^verbatim>\<open>ARCHIVE_DIR\<close> other than the index, in the same way;
  \<^verbatim>\<open>sessions.json\<close> (\<open>None\<close> when the file does not exist) and
  \<^verbatim>\<open>archive-index.json\<close> (\<open>None\<close> when it does not exist or cannot be read).
\<close>

record store =
  session_files :: "(string \<times> bytes) list"
  archive_files :: "(string \<times> bytes) list"
  sessions_json :: "(string \<times> pydict) list option"
  index_file :: "archive_index option"

text \<open>
  What the program takes from outside itself: the gzip codec of the standard library
  (decompression yields the bytes written before the stream ended and whether it ended
  cleanly); \<^verbatim>\<open>str()\<close> on a value that is not a string; \<^verbatim>\<open>int()\<close> on a string
  (\<open>None\<close> for a \<^verbatim>\<open>ValueError\<close>); \<^verbatim>\<open>SESSIONS_DIR.glob(pattern)\<close> of pathlib, given
  the pattern and the paths of the directory in scan order, which yields the matching
  paths or raises on a pattern it refuses (an identifier can hold wildcards, and an empty
  one puts \<^verbatim>\<open>**\<close> inside a component); and the transcript projection
  \<^verbatim>\<open>extract_first_user_message\<close>, which parses the transcript with \<^verbatim>\<open>json.loads\<close>,
  only fills the \<^verbatim>\<open>task\<close> field, and raises on a line that is JSON and not an object.
\<close>

record env =
  gzip_compress :: "bytes \<Rightarrow> bytes"
  gzip_decompress :: "bytes \<Rightarrow> bytes \<times> bool"
  py_str :: "json \<Rightarrow> string"
  parse_int :: "string \<Rightarrow> int option"
  glob :: "string \<Rightarrow> string list \<Rightarrow> py_error + string list"
  extract_first_user_message :: "bytes \<Rightarrow> py_error + json"

text \<open>\<^verbatim>\<open>f'{v}'\<close>\<close>

definition format_str :: "env \<Rightarrow> json \<Rightarrow> string" where
  "format_str e v = (case v of JStr s \<Rightarrow> s | _ \<Rightarrow> py_str e v)"

definition load_archive_index :: "store \<Rightarrow> archive_index" where
  "load_archive_index st =
     (case index_file st of
        Some index \<Rightarrow> index
      | None \<Rightarrow> \<lparr>sessions = [], totalSize = 0\<rparr>)"

definition save_archive_index :: "archive_index \<Rightarrow> store \<Rightarrow> store" where
  "save_archive_index index st = st\<lparr>index_file := Some index\<rparr>"

text \<open>\<^verbatim>\<open>sum(s.get('compressedSize', 0) for s in index['sessions'])\<close>\<close>

definition sum_compressed :: "archive_entry list \<Rightarrow> int" where
  "sum_compressed es = sum_list (map compressedSize es)"

section \<open>Archiving a session\<close>

text \<open>
  Each file-system call of \<^verbatim>\<open>archive_session\<close> can raise. One call of the function
  is run with one fault: the step named by the fault raises at its first system call,
  before it changes anything; every other step succeeds.
\<close>

datatype archive_fault =
    NoFault
  | MkdirPermissionError
  | MkdirError
  | CompressPermissionError
  | CompressError
  | IndexUpdateError
  | UnlinkError
  | CatalogReadError
  | CatalogWriteError

text \<open>The messages of the \<^verbatim>\<open>(False, error_message)\<close> results.\<close>

datatype archive_msg =
    TranscriptNotFound string
  | ArchiveDirPermissionDenied
  | ArchiveDirFailed
  | ArchivePermissionDenied
  | CompressFailed
  | ArchiveFailed

text \<open>
  The transcript of a session: the file \<^verbatim>\<open>{session_id}.jsonl\<close> when it exists, else the
  first match of \<^verbatim>\<open>SESSIONS_DIR.glob(f'*{session_id}*.jsonl')\<close>. The glob is called
  outside any \<^verbatim>\<open>try\<close>: what it raises leaves \<^verbatim>\<open>archive_session\<close> as an exception.
\<close>

definition find_jsonl_file :: "env \<Rightarrow> store \<Rightarrow> json \<Rightarrow> py_error + string option" where
  "find_jsonl_file e st session_id =
     (let exact = format_str e session_id @ ''.jsonl'' in
      if map_of (session_files st) exact \<noteq> None then Inr (Some exact)
      else
        (case glob e (''*'' @ format_str e session_id @ ''*.jsonl'') (map fst (session_files st)) of
           Inl err \<Rightarrow> Inl err
         | Inr [] \<Rightarrow> Inr None
         | Inr (m # _) \<Rightarrow> Inr (Some m)))"

text \<open>The entry appended to the index (\<^verbatim>\<open>server.py\<close>, lines 892 to 903).\<close>

definition new_entry ::
  "env \<Rightarrow> int \<Rightarrow> string \<Rightarrow> pydict \<Rightarrow> bytes \<Rightarrow> json \<Rightarrow> archive_entry" where
  "new_entry e now session_key session_data content first_message =
     \<lparr>key = session_key,
      sessionId = dict_get session_data ''sessionId'' (JStr session_key),
      label = dict_get session_data ''label'' (JStr session_key),
      archivedAt = now,
      originalSize = int (length content),
      compressedSize = int (length (gzip_compress e content)),
      updatedAt = dict_get session_data ''updatedAt'' (JInt 0),
      model = dict_get session_data ''model'' JNull,
      channel = py_or (dict_get session_data ''channel'' JNull)
                      (dict_get session_data ''lastChannel'' JNull),
      task = first_message\<rparr>"

definition append_to_index :: "archive_entry \<Rightarrow> archive_index \<Rightarrow> archive_index" where
  "append_to_index entry index =
     \<lparr>sessions = sessions index @ [entry],
      totalSize = sum_compressed (sessions index @ [entry])\<rparr>"

text \<open>\<^verbatim>\<open>if archive_file.exists(): archive_file.unlink()\<close> of the exception handler.\<close>

definition cleanup_partial :: "string \<Rightarrow> store \<Rightarrow> store" where
  "cleanup_partial archive_file st =
     st\<lparr>archive_files := AList.delete archive_file (archive_files st)\<rparr>"

text \<open>
  \<^verbatim>\<open>archive_session\<close> of \<^verbatim>\<open>server.py\<close>. It returns the pair \<^verbatim>\<open>(True, None)\<close> or
  \<^verbatim>\<open>(False, error_message)\<close>, or raises what the glob raised; the second component
  is the storage as it leaves it. A transcript that the glob named and that cannot be opened fails the compression;
  an exception of \<^verbatim>\<open>extract_first_user_message\<close> is caught with the others of the last
  \<^verbatim>\<open>try\<close>.
\<close>

definition archive_session ::
  "env \<Rightarrow> archive_fault \<Rightarrow> int \<Rightarrow> string \<Rightarrow> pydict \<Rightarrow> store
   \<Rightarrow> (py_error + bool \<times> archive_msg option) \<times> store" where
  "archive_session e fault now session_key session_data st =
     (let session_id = dict_get session_data ''sessionId'' (JStr session_key) in
      case find_jsonl_file e st session_id of
        Inl err \<Rightarrow> (Inl err, st)
      | Inr None \<Rightarrow>
          (Inr (False, Some (TranscriptNotFound (format_str e session_id @ ''.jsonl''))), st)
      | Inr (Some jsonl_file) \<Rightarrow>
          if fault = MkdirPermissionError then (Inr (False, Some ArchiveDirPermissionDenied), st)
          else if fault = MkdirError then (Inr (False, Some ArchiveDirFailed), st)
          else
            let archive_file = path_stem jsonl_file @ ''.jsonl.gz'' in
            if fault = CompressPermissionError then (Inr (False, Some ArchivePermissionDenied), st)
            else if fault = CompressError then (Inr (False, Some CompressFailed), st)
            else
              (case map_of (session_files st) jsonl_file of
                 None \<Rightarrow> (Inr (False, Some CompressFailed), st)
               | Some content \<Rightarrow>
                   let st1 = st\<lparr>archive_files :=
                                AList.update archive_file (gzip_compress e content)
                                  (archive_files st)\<rparr>
                   in
                   (case extract_first_user_message e content of
                      Inl err \<Rightarrow> (Inr (False, Some ArchiveFailed), cleanup_partial archive_file st1)
                    | Inr first_message \<Rightarrow>
                        let index =
                              append_to_index
                                (new_entry e now session_key session_data content first_message)
                                (load_archive_index st1)
                        in
                        if fault = IndexUpdateError
                        then (Inr (False, Some ArchiveFailed), cleanup_partial archive_file st1)
                        else
                          let st2 = save_archive_index index st1 in
                          if fault = UnlinkError
                          then (Inr (False, Some ArchiveFailed), cleanup_partial archive_file st2)
                          else
                            let st3 = st2\<lparr>session_files :=
                                         AList.delete jsonl_file (session_files st2)\<rparr>
                            in
                            (case sessions_json st3 of
                               None \<Rightarrow> (Inr (True, None), st3)
                             | Some catalog \<Rightarrow>
                                 if fault = CatalogReadError
                                 then (Inr (False, Some ArchiveFailed),
                                       cleanup_partial archive_file st3)
                                 else if map_of catalog session_key \<noteq> None
                                 then
                                   if fault = CatalogWriteError
                                   then (Inr (False, Some ArchiveFailed),
                                         cleanup_partial archive_file st3)
                                   else (Inr (True, None),
                                         st3\<lparr>sessions_json :=
                                               Some (AList.delete session_key catalog)\<rparr>)
                                 else (Inr (True, None), st3)))))"

text \<open>
  \<^verbatim>\<open>archive_session\<close> of \<^verbatim>\<open>scripts/archive-sessions.py\<close>. It returns a bool; the
  glob and the creation of the directory are outside the \<^verbatim>\<open>try\<close>, so a failure there
  leaves the function as an exception; the handler removes nothing.
\<close>

definition script_archive_session ::
  "env \<Rightarrow> archive_fault \<Rightarrow> int \<Rightarrow> bool \<Rightarrow> string \<Rightarrow> pydict \<Rightarrow> store
   \<Rightarrow> (py_error + bool) \<times> store" where
  "script_archive_session e fault now dry_run session_key session_data st =
     (let session_id = dict_get session_data ''sessionId'' (JStr session_key) in
      case find_jsonl_file e st session_id of
        Inl err \<Rightarrow> (Inl err, st)
      | Inr None \<Rightarrow> (Inr False, st)
      | Inr (Some jsonl_file) \<Rightarrow>
          if dry_run then (Inr True, st)
          else if fault = MkdirPermissionError \<or> fault = MkdirError then (Inl OSError, st)
          else
            let archive_file = path_stem jsonl_file @ ''.jsonl.gz'' in
            if fault = CompressPermissionError \<or> fault = CompressError then (Inr False, st)
            else
              (case map_of (session_files st) jsonl_file of
                 None \<Rightarrow> (Inr False, st)
               | Some content \<Rightarrow>
                   let st1 = st\<lparr>archive_files :=
                                AList.update archive_file (gzip_compress e content)
                                  (archive_files st)\<rparr>
                   in
                   (case extract_first_user_message e content of
                      Inl err \<Rightarrow> (Inr False, st1)
                    | Inr first_message \<Rightarrow>
                        let index =
                              append_to_index
                                (new_entry e now session_key session_data content first_message)
                                (load_archive_index st1)
                        in
                        if fault = IndexUpdateError then (Inr False, st1)
                        else
                          let st2 = save_archive_index index st1 in
                          if fault = UnlinkError then (Inr False, st2)
                          else
                            let st3 = st2\<lparr>session_files :=
                                         AList.delete jsonl_file (session_files st2)\<rparr>
                            in
                            (case sessions_json st3 of
                               None \<Rightarrow> (Inr True, st3)
                             | Some catalog \<Rightarrow>
                                 if fault = CatalogReadError then (Inr False, st3)
                                 else if map_of catalog session_key \<noteq> None
                                 then
                                   if fault = CatalogWriteError then (Inr False, st3)
                                   else (Inr True,
                                         st3\<lparr>sessions_json :=
                                               Some (AList.delete session_key catalog)\<rparr>)
                                 else (Inr True, st3)))))"

section \<open>Restoring a session\<close>

datatype restore_fault =
    NoRestoreFault
  | DecompressOpenError
  | SessionsReadError
  | SessionsWriteError
  | ArchiveUnlinkError
  | IndexWriteError

text \<open>The catalog row \<^verbatim>\<open>restore_session\<close> writes (\<^verbatim>\<open>server.py\<close>, lines 969 to 976).\<close>

definition restored_row :: "archive_entry \<Rightarrow> int \<Rightarrow> pydict" where
  "restored_row session_info now =
     [(''sessionId'', sessionId session_info),
      (''label'', label session_info),
      (''updatedAt'', updatedAt session_info),
      (''model'', model session_info),
      (''channel'', channel session_info),
      (''restoredAt'', JInt now)]"

text \<open>
  \<^verbatim>\<open>restore_session\<close> of \<^verbatim>\<open>server.py\<close>: True on success, False on failure. The
  transcript is opened for writing before the archive is read, so a stream that does not
  end cleanly leaves what was written of it.
\<close>

definition restore_session ::
  "env \<Rightarrow> restore_fault \<Rightarrow> int \<Rightarrow> string \<Rightarrow> store \<Rightarrow> bool \<times> store" where
  "restore_session e fault now session_key st =
     (let index = load_archive_index st in
      case find (\<lambda>s. key s = session_key \<or> sessionId s = JStr session_key) (sessions index) of
        None \<Rightarrow> (False, st)
      | Some session_info \<Rightarrow>
          let session_id = sessionId session_info;
              archive_file = format_str e session_id @ ''.jsonl.gz''
          in
          (case map_of (archive_files st) archive_file of
            None \<Rightarrow> (False, st)
          | Some gz \<Rightarrow>
              if fault = DecompressOpenError then (False, st)
              else
                let jsonl_file = format_str e session_id @ ''.jsonl'';
                    st1 = st\<lparr>session_files :=
                             AList.update jsonl_file (fst (gzip_decompress e gz)) (session_files st)\<rparr>
                in
                if \<not> snd (gzip_decompress e gz) then (False, st1)
                else if sessions_json st1 \<noteq> None \<and> fault = SessionsReadError then (False, st1)
                else if fault = SessionsWriteError then (False, st1)
                else
                  let catalog = (case sessions_json st1 of None \<Rightarrow> [] | Some c \<Rightarrow> c);
                      st2 = st1\<lparr>sessions_json :=
                               Some (AList.update (key session_info)
                                       (restored_row session_info now) catalog)\<rparr>
                  in
                  if fault = ArchiveUnlinkError then (False, st2)
                  else
                    let st3 = st2\<lparr>archive_files := AList.delete archive_file (archive_files st2)\<rparr>;
                        kept = filter (\<lambda>s. key s \<noteq> session_key) (sessions index)
                    in
                    if fault = IndexWriteError then (False, st3)
                    else (True,
                          save_archive_index
                            \<lparr>sessions = kept, totalSize = sum_compressed kept\<rparr> st3)))"

section \<open>The retention sweep\<close>

text \<open>\<^verbatim>\<open>int(x)\<close>\<close>

fun py_int :: "env \<Rightarrow> json \<Rightarrow> py_error + int" where
  "py_int e (JInt n) = Inr n"
| "py_int e (JBool b) = Inr (if b then 1 else 0)"
| "py_int e (JStr s) = (case parse_int e s of None \<Rightarrow> Inl ValueError | Some n \<Rightarrow> Inr n)"
| "py_int e _ = Inl TypeError"

text \<open>
  The truth value of the pair \<^verbatim>\<open>archive_session\<close> returns, as
  \<^verbatim>\<open>if archive_session(key, session):\<close> tests it: a tuple with elements is true.
\<close>

definition tuple_truthy :: "bool \<times> archive_msg option \<Rightarrow> bool" where
  "tuple_truthy r = True"

text \<open>
  The loop of \<^verbatim>\<open>handle_run_archive\<close> over \<^verbatim>\<open>list(sessions.items())\<close>, the snapshot of
  the catalog read before the loop; \<open>faults\<close> and \<open>clock\<close> give the fault and the clock
  reading of the archival of each key. A value of \<^verbatim>\<open>updatedAt\<close> that cannot be compared
  ends the loop with the exception, and so does an exception of \<^verbatim>\<open>archive_session\<close>.
\<close>

fun run_archive_loop ::
  "env \<Rightarrow> (string \<Rightarrow> archive_fault) \<Rightarrow> (string \<Rightarrow> int) \<Rightarrow> int
   \<Rightarrow> (string \<times> pydict) list \<Rightarrow> int \<Rightarrow> store \<Rightarrow> (py_error + int) \<times> store" where
  "run_archive_loop e faults clock cutoff [] archived_count st = (Inr archived_count, st)"
| "run_archive_loop e faults clock cutoff ((k, session) # rest) archived_count st =
     (case is_expired cutoff session of
        Inl err \<Rightarrow> (Inl err, st)
      | Inr False \<Rightarrow> run_archive_loop e faults clock cutoff rest archived_count st
      | Inr True \<Rightarrow>
          (case archive_session e (faults k) (clock k) k session st of
             (Inl err, st') \<Rightarrow> (Inl err, st')
           | (Inr r, st') \<Rightarrow>
               if tuple_truthy r
               then run_archive_loop e faults clock cutoff rest (archived_count + 1) st'
               else run_archive_loop e faults clock cutoff rest archived_count st'))"

text \<open>
  The response of \<^verbatim>\<open>handle_run_archive\<close>:
  \<^verbatim>\<open>{'success': True, 'archived': n}\<close>, with a message when retention is off, or the
  error response of the exception handler.
\<close>

datatype run_archive_response =
    Success int "string option"
  | Error500

definition handle_run_archive ::
  "env \<Rightarrow> (string \<Rightarrow> archive_fault) \<Rightarrow> (string \<Rightarrow> int) \<Rightarrow> int \<Rightarrow> pydict \<Rightarrow> store
   \<Rightarrow> run_archive_response \<times> store" where
  "handle_run_archive e faults clock now settings st =
     (let retention_days = dict_get settings ''retentionDays'' (JStr ''never'') in
      if retention_days = JStr ''never''
      then (Success 0 (Some ''Retention set to never''), st)
      else
        (case py_int e retention_days of
           Inl err \<Rightarrow> (Error500, st)
         | Inr days \<Rightarrow>
             (case sessions_json st of
                None \<Rightarrow> (Success 0 None, st)
              | Some catalog \<Rightarrow>
                  (case run_archive_loop e faults clock (cutoff_ms now days) catalog 0 st of
                     (Inl err, st') \<Rightarrow> (Error500, st')
                   | (Inr archived_count, st') \<Rightarrow> (Success archived_count None, st')))))"

text \<open>\<^verbatim>\<open>restore(archive(key, record))\<close>: a restore right after an archival, both without fault.\<close>

definition restore_after_archive ::
  "env \<Rightarrow> int \<Rightarrow> int \<Rightarrow> string \<Rightarrow> pydict \<Rightarrow> store \<Rightarrow> bool \<times> store" where
  "restore_after_archive e t1 t2 session_key session_data st =
     restore_session e NoRestoreFault t2 session_key
       (snd (archive_session e NoFault t1 session_key session_data st))"

section \<open>Agent session directories\<close>

text \<open>
  What \<^verbatim>\<open>get_all_agent_sessions_dirs\<close> reads of the file system: whether
  \<^verbatim>\<open>OPENCLAW_HOME/agents\<close> exists, its entries in the order \<^verbatim>\<open>iterdir()\<close> yields them
  (name, whether the entry is a directory, whether it has a \<^verbatim>\<open>sessions\<close> child), and
  \<^verbatim>\<open>SESSIONS_DIR\<close>, which the command line, the environment or the configuration can
  place anywhere, with whether it exists.
\<close>

record agent_entry =
  entry_name :: string
  is_dir :: bool
  sessions_exists :: bool

record agents_home =
  agents_base :: string
  agents_base_exists :: bool
  agents_base_entries :: "agent_entry list"
  sessions_dir :: string
  sessions_dir_exists :: bool

definition get_all_agent_sessions_dirs :: "agents_home \<Rightarrow> (string \<times> string) list" where
  "get_all_agent_sessions_dirs h =
     (if \<not> agents_base_exists h then [(''main'', sessions_dir h)]
      else
        let session_dirs =
              map (\<lambda>d. (entry_name d, agents_base h @ ''/'' @ entry_name d @ ''/sessions''))
                (filter (\<lambda>d. is_dir d \<and> \<not> startswith (entry_name d) ''.'' \<and> sessions_exists d)
                   (agents_base_entries h))
        in
        if \<not> list_ex (\<lambda>(agent_id, dir). agent_id = ''main'') session_dirs
        then (if sessions_dir_exists h then session_dirs @ [(''main'', sessions_dir h)]
              else session_dirs)
        else session_dirs)"

section \<open>Label resolution\<close>

text \<open>
  String methods on ASCII text: \<^verbatim>\<open>isdigit\<close>, \<^verbatim>\<open>isspace\<close>, \<^verbatim>\<open>lower\<close>,
  \<^verbatim>\<open>title\<close>, \<^verbatim>\<open>strip\<close>, \<^verbatim>\<open>split(sep)\<close> for a separator that is not empty,
  \<^verbatim>\<open>sep.join\<close> and \<^verbatim>\<open>replace('-', ' ')\<close>.
\<close>

definition isdigit :: "char \<Rightarrow> bool" where
  "isdigit c = (c \<in> set ''0123456789'')"

definition isspace :: "char \<Rightarrow> bool" where
  "isspace c =
     (c \<in> set [CHR 0x20, CHR 0x09, CHR 0x0A, CHR 0x0B, CHR 0x0C, CHR 0x0D,
                CHR 0x1C, CHR 0x1D, CHR 0x1E, CHR 0x1F])"

definition is_cased :: "char \<Rightarrow> bool" where
  "is_cased c = (c \<in> set ''ABCDEFGHIJKLMNOPQRSTUVWXYZabcdefghijklmnopqrstuvwxyz'')"

definition lower_char :: "char \<Rightarrow> char" where
  "lower_char c =
     (case map_of (zip ''ABCDEFGHIJKLMNOPQRSTUVWXYZ'' ''abcdefghijklmnopqrstuvwxyz'') c of
        Some l \<Rightarrow> l
      | None \<Rightarrow> c)"

definition upper_char :: "char \<Rightarrow> char" where
  "upper_char c =
     (case map_of (zip ''abcdefghijklmnopqrstuvwxyz'' ''ABCDEFGHIJKLMNOPQRSTUVWXYZ'') c of
        Some u \<Rightarrow> u
      | None \<Rightarrow> c)"

definition py_lower :: "string \<Rightarrow> string" where
  "py_lower s = map lower_char s"

fun title_from :: "bool \<Rightarrow> string \<Rightarrow> string" where
  "title_from previous_cased [] = []"
| "title_from previous_cased (c # cs) =
     (if is_cased c
      then (if previous_cased then lower_char c else upper_char c) # title_from True cs
      else c # title_from False cs)"

definition py_title :: "string \<Rightarrow> string" where
  "py_title s = title_from False s"

definition py_strip :: "string \<Rightarrow> string" where
  "py_strip s = rev (dropWhile isspace (rev (dropWhile isspace s)))"

function py_split :: "string \<Rightarrow> string \<Rightarrow> string list" where
  "py_split sep [] = [[]]"
| "py_split sep (c # cs) =
     (if sep \<noteq> [] \<and> prefix sep (c # cs)
      then [] # py_split sep (drop (length sep) (c # cs))
      else (case py_split sep cs of
              [] \<Rightarrow> [[c]]
            | p # ps \<Rightarrow> (c # p) # ps))"
  by pat_completeness auto
termination
  by (relation "measure (\<lambda>(sep, s). length s)") auto

fun py_join :: "string \<Rightarrow> string list \<Rightarrow> string" where
  "py_join sep [] = []"
| "py_join sep [x] = x"
| "py_join sep (x # y # ys) = x @ sep @ py_join sep (y # ys)"

definition replace_hyphens :: "string \<Rightarrow> string" where
  "replace_hyphens s = map (\<lambda>c. if c = CHR ''-'' then CHR '' '' else c) s"

text \<open>\<^verbatim>\<open>xs[0]\<close> and \<^verbatim>\<open>xs[-1]\<close> of a result of \<^verbatim>\<open>split\<close>, which is never empty.\<close>

definition first_part :: "string list \<Rightarrow> string" where
  "first_part parts = (case parts of [] \<Rightarrow> [] | p # _ \<Rightarrow> p)"

definition last_part :: "string list \<Rightarrow> string" where
  "last_part parts = (case rev parts of [] \<Rightarrow> [] | p # _ \<Rightarrow> p)"

text \<open>
  \<^verbatim>\<open>re.match(r'^[a-z0-9]{20,}$', s)\<close>: twenty or more characters, all lowercase letters
  or digits, up to the end of the string or to a newline that ends it.
\<close>

definition matches_hash :: "string \<Rightarrow> bool" where
  "matches_hash s =
     (let t = (if s \<noteq> [] \<and> last s = CHR 0x0A then butlast s else s)
      in 20 \<le> length t \<and> list_all (\<lambda>c. c \<in> set ''abcdefghijklmnopqrstuvwxyz0123456789'') t)"

definition format_phone_number :: "string \<Rightarrow> string" where
  "format_phone_number phone =
     (if phone = [] then phone
      else
        let has_plus = startswith phone ''+'';
            digits = filter isdigit phone
        in
        if length digits = 11 \<and> startswith digits ''1''
        then ''+1 '' @ take 3 (drop 1 digits) @ '' '' @ take 3 (drop 4 digits) @ '' '' @ drop 7 digits
        else if length digits = 10
        then ''+1 '' @ take 3 digits @ '' '' @ take 3 (drop 3 digits) @ '' '' @ drop 6 digits
        else if has_plus then ''+'' @ digits else phone)"

text \<open>
  The fields of a session are JSON values of any type. The label rules test a value for
  truth before they call a string method on it; a true value that is not a string then
  raises: \<^verbatim>\<open>AttributeError\<close> for \<^verbatim>\<open>startswith\<close> and \<^verbatim>\<open>split\<close>, and for the group
  label, whose first use is \<^verbatim>\<open>' id:' in group_label\<close>, \<^verbatim>\<open>TypeError\<close> when the value
  is a number or a bool. \<^verbatim>\<open>origin.get\<close> raises \<^verbatim>\<open>AttributeError\<close> when \<^verbatim>\<open>origin\<close> is
  not an object.
\<close>

text \<open>
  \<^verbatim>\<open>origin.get(k1, '') or origin.get(k2, '')\<close>
\<close>

definition origin_or :: "json \<Rightarrow> string \<Rightarrow> string \<Rightarrow> py_error + json" where
  "origin_or origin k1 k2 =
     (case origin of
        JObj kvs \<Rightarrow> Inr (py_or (dict_get kvs k1 (JStr [])) (dict_get kvs k2 (JStr [])))
      | _ \<Rightarrow> Inl AttributeError)"

text \<open>
  \<^verbatim>\<open>existing_label and not existing_label.startswith('agent:') and not
  existing_label.startswith('signal:')\<close>: the label to return, if any.
\<close>

definition kept_label :: "json \<Rightarrow> py_error + string option" where
  "kept_label existing_label =
     (if \<not> truthy existing_label then Inr None
      else
        (case existing_label of
           JStr l \<Rightarrow>
             Inr (if \<not> startswith l ''agent:'' \<and> \<not> startswith l ''signal:'' then Some l
                  else None)
         | _ \<Rightarrow> Inl AttributeError))"

text \<open>
  The Signal branch of \<^verbatim>\<open>parse_friendly_session_label\<close> for a group
  (\<^verbatim>\<open>server.py\<close>, lines 523 to 549): the label from the group label, if it gives one,
  then from the display name.
\<close>

definition label_from_group_label :: "json \<Rightarrow> py_error + string option" where
  "label_from_group_label group_label0 =
     (if \<not> truthy group_label0 then Inr None
      else
        (case group_label0 of
           JStr g \<Rightarrow>
             (let group_label =
                    (if str_in '' id:'' g then py_strip (first_part (py_split '' id:'' g)) else g)
              in
              Inr (if group_label \<noteq> [] \<and> \<not> startswith group_label ''group:''
                      \<and> length group_label < 30 \<and> \<not> matches_hash (py_lower group_label)
                   then Some (''Signal: '' @ group_label)
                   else None))
         | JInt n \<Rightarrow> Inl TypeError
         | JBool b \<Rightarrow> Inl TypeError
         | _ \<Rightarrow> Inl AttributeError))"

definition label_from_display_name :: "json \<Rightarrow> py_error + string" where
  "label_from_display_name display_name =
     (if \<not> truthy display_name then Inr ''Signal Group Chat''
      else
        (case display_name of
           JStr d \<Rightarrow>
             Inr (if startswith d ''signal:g-''
                  then
                    (let group_name = drop 9 d in
                     if startswith group_name ''group-'' then ''Signal Group Chat''
                     else if length group_name < 30
                     then ''Signal: '' @ py_title (replace_hyphens group_name)
                     else ''Signal Group Chat'')
                  else ''Signal Group Chat'')
         | _ \<Rightarrow> Inl AttributeError))"

definition signal_group_label :: "json \<Rightarrow> json \<Rightarrow> py_error + string" where
  "signal_group_label origin display_name =
     (case origin_or origin ''label'' ''groupName'' of
        Inl err \<Rightarrow> Inl err
      | Inr group_label0 \<Rightarrow>
          (case label_from_group_label group_label0 of
             Inl err \<Rightarrow> Inl err
           | Inr (Some l) \<Rightarrow> Inr l
           | Inr None \<Rightarrow> label_from_display_name display_name))"

text \<open>The Signal branch for a direct message (\<^verbatim>\<open>server.py\<close>, lines 552 to 564).\<close>

definition signal_dm_label :: "json \<Rightarrow> py_error + string" where
  "signal_dm_label origin =
     (case origin_or origin ''label'' ''from'' of
        Inl err \<Rightarrow> Inl err
      | Inr origin_label \<Rightarrow>
          if \<not> truthy origin_label then Inr ''Signal DM''
          else
            (case origin_label of
               JStr ol \<Rightarrow>
                 Inr (if startswith ol ''signal:''
                      then ''Signal: '' @ format_phone_number (drop 7 ol)
                      else if \<not> startswith ol ''group:'' then ''Signal: '' @ ol
                      else ''Signal DM'')
             | _ \<Rightarrow> Inl AttributeError))"

text \<open>
  The branches of the four other channels: \<^verbatim>\<open>f"{prefix}{origin_label}"\<close> when the origin
  gives a label, else the generic name.
\<close>

definition channel_label :: "env \<Rightarrow> json \<Rightarrow> string \<Rightarrow> string \<Rightarrow> string \<Rightarrow> py_error + string" where
  "channel_label e origin k2 channel_name generic =
     (case origin_or origin ''label'' k2 of
        Inl err \<Rightarrow> Inl err
      | Inr origin_label \<Rightarrow>
          Inr (if truthy origin_label then channel_name @ format_str e origin_label
               else generic))"

definition parse_friendly_session_label :: "env \<Rightarrow> string \<Rightarrow> pydict \<Rightarrow> py_error + string" where
  "parse_friendly_session_label e session_key session_data =
     (case kept_label (dict_get session_data ''label'' (JStr [])) of
        Inl err \<Rightarrow> Inl err
      | Inr (Some existing_label) \<Rightarrow> Inr existing_label
      | Inr None \<Rightarrow>
          let display_name = dict_get session_data ''displayName'' (JStr []);
              origin = dict_get session_data ''origin'' (JObj []);
              channel = py_or (dict_get session_data ''channel'' JNull)
                              (dict_get session_data ''lastChannel'' (JStr []))
          in
          if str_in '':signal:'' session_key \<or> channel = JStr ''signal''
          then
            (if str_in ''group'' session_key
                \<or> dict_get session_data ''chatType'' (JStr []) = JStr ''group''
             then signal_group_label origin display_name
             else signal_dm_label origin)
          else if str_in '':discord:'' session_key \<or> channel = JStr ''discord''
          then channel_label e origin ''channelName'' ''Discord: '' ''Discord Chat''
          else if str_in '':telegram:'' session_key \<or> channel = JStr ''telegram''
          then channel_label e origin ''chatTitle'' ''Telegram: '' ''Telegram Chat''
          else if str_in '':whatsapp:'' session_key \<or> channel = JStr ''whatsapp''
          then channel_label e origin ''from'' ''WhatsApp: '' ''WhatsApp Chat''
          else if str_in '':slack:'' session_key \<or> channel = JStr ''slack''
          then channel_label e origin ''channelName'' ''Slack: '' ''Slack Chat''
          else
            let parts = py_split '':'' session_key in
            Inr (if length parts > 2 then py_join '':'' (drop 2 parts) else session_key))"

section \<open>The session list\<close>

text \<open>
  \<^verbatim>\<open>transform_sessions\<close> turns the raw sessions into the rows of the dashboard. Its one
  caller, \<^verbatim>\<open>handle_sessions_list\<close>, sets the \<^verbatim>\<open>key\<close> field of every raw session to
  the key the session has in \<^verbatim>\<open>sessions.json\<close>, a string; a raw session is that key
  with the other fields. The table \<^verbatim>\<open>subagent_names\<close> is the empty dictionary literal of
  the source; \<open>cron_names\<close> is what \<^verbatim>\<open>load_cron_names\<close> obtained from the command-line
  tool and \<open>main_agent_name\<close> the configured name.
\<close>

type_synonym raw_session = "string \<times> pydict"

definition subagent_names :: "(string \<times> string) list" where
  "subagent_names = []"

text \<open>\<^verbatim>\<open>not agent_name\<close>\<close>

definition no_agent :: "string option \<Rightarrow> bool" where
  "no_agent agent_name = (case agent_name of None \<Rightarrow> True | Some a \<Rightarrow> a = [])"

text \<open>
  The agent name and the label of a spawned or sub-agent session
  (\<^verbatim>\<open>server.py\<close>, lines 2033 to 2049), from the key and from the stored label;
  \<open>label0\<close> is the label the session had before.
\<close>

definition spawn_from_key ::
  "string \<Rightarrow> string option \<Rightarrow> json \<Rightarrow> string option \<times> json" where
  "spawn_from_key session_key agent_name0 label0 =
     (let parts = (if str_in '':spawn:'' session_key
                   then py_split '':spawn:'' session_key
                   else py_split '':subagent:'' session_key)
      in
      if 1 < length parts
      then
        (if no_agent agent_name0
         then Some (py_lower (first_part (py_split ''-'' (parts ! 1))))
         else agent_name0,
         JStr (parts ! 1))
      else (agent_name0, label0))"

definition spawn_agent_and_label ::
  "string \<Rightarrow> pydict \<Rightarrow> string option \<Rightarrow> json \<Rightarrow> py_error + string option \<times> json" where
  "spawn_agent_and_label session_key s agent_name0 label0 =
     (case dict_get s ''label'' (JStr []) of
        JStr stored_label \<Rightarrow>
          if stored_label \<noteq> [] \<and> \<not> startswith stored_label ''agent:''
          then
            Inr (if no_agent agent_name0
                 then Some (if str_in ''-'' stored_label
                            then py_lower (first_part (py_split ''-'' stored_label))
                            else py_lower stored_label)
                 else agent_name0,
                 JStr stored_label)
          else Inr (spawn_from_key session_key agent_name0 label0)
      | stored_label \<Rightarrow>
          if truthy stored_label then Inl AttributeError
          else Inr (spawn_from_key session_key agent_name0 label0))"

text \<open>
  The agent name and the label of a session (\<^verbatim>\<open>server.py\<close>, lines 2021 to 2071).
\<close>

definition resolve_agent_and_label ::
  "env \<Rightarrow> (string \<times> string) list \<Rightarrow> string \<Rightarrow> string \<Rightarrow> pydict
   \<Rightarrow> py_error + string option \<times> json" where
  "resolve_agent_and_label e cron_names main_agent_name session_key s =
     (let label0 = py_or (dict_get s ''label'' JNull) (dict_get s ''displayName'' (JStr []));
          key_parts = py_split '':'' session_key;
          agent_id_from_key = (if 2 \<le> length key_parts then Some (key_parts ! 1) else None);
          agent_name0 =
            (case agent_id_from_key of None \<Rightarrow> None | Some a \<Rightarrow> map_of subagent_names a)
      in
      if str_in '':spawn:'' session_key \<or> str_in '':subagent:'' session_key
      then spawn_agent_and_label session_key s agent_name0 label0
      else if str_in '':cron:'' session_key
      then
        Inr (Some ''cron'',
             JStr (case map_of cron_names
                          (first_part (py_split '':''
                             (last_part (py_split '':cron:'' session_key)))) of
                     Some job_name \<Rightarrow> ''Cron: '' @ job_name
                   | None \<Rightarrow> ''Cron Job''))
      else if session_key = ''agent:main:main''
      then Inr (Some ''main'', JStr (main_agent_name @ '' (main)''))
      else if str_in '':signal:'' session_key \<or> str_in '':discord:'' session_key
              \<or> str_in '':telegram:'' session_key \<or> str_in '':whatsapp:'' session_key
              \<or> str_in '':slack:'' session_key
      then
        (case parse_friendly_session_label e session_key s of
           Inl err \<Rightarrow> Inl err
         | Inr l \<Rightarrow>
             Inr (if no_agent agent_name0 \<and> agent_id_from_key = Some ''main'' then Some ''main''
                  else agent_name0,
                  JStr l))
      else if truthy label0 then Inr (agent_name0, label0)
      else
        (case parse_friendly_session_label e session_key s of
           Inl err \<Rightarrow> Inl err
         | Inr l \<Rightarrow> Inr (agent_name0, JStr l)))"

text \<open>
  The row of one session. Of the sixteen fields of the row, \<^verbatim>\<open>ageMs\<close>, \<^verbatim>\<open>usagePct\<close> and
  \<^verbatim>\<open>node\<close> are left out: they are floating-point values or come from the host name.
  \<^verbatim>\<open>sanitize_session\<close> changes none of the fields of a row, which has no path field. The
  comparison \<^verbatim>\<open>age_ms < 60000\<close> raises on a value that is not a number; a missing
  \<^verbatim>\<open>ageMs\<close> is infinite.
\<close>

definition transform_session ::
  "env \<Rightarrow> (string \<times> string) list \<Rightarrow> string \<Rightarrow> raw_session \<Rightarrow> py_error + pydict" where
  "transform_session e cron_names main_agent_name raw =
     (case raw of
        (session_key, s) \<Rightarrow>
          (case resolve_agent_and_label e cron_names main_agent_name session_key s of
             Inl err \<Rightarrow> Inl err
           | Inr (agent_name, session_label) \<Rightarrow>
               (case (case map_of s ''ageMs'' of
                        None \<Rightarrow> Inr False
                      | Some age_ms \<Rightarrow> py_lt_int age_ms 60000) of
                  Inl err \<Rightarrow> Inl err
                | Inr recently_active \<Rightarrow>
                    Inr [(''id'', py_or (dict_get s ''sessionId'' JNull) (JStr session_key)),
                         (''key'', JStr session_key),
                         (''label'', session_label),
                         (''agentName'', (case agent_name of None \<Rightarrow> JNull | Some a \<Rightarrow> JStr a)),
                         (''status'',
                          JStr (if recently_active then ''running''
                                else if truthy (dict_get s ''abortedLastRun'' JNull) then ''failed''
                                else ''done'')),
                         (''updatedAt'', dict_get s ''updatedAt'' (JInt 0)),
                         (''channel'',
                          py_or (dict_get s ''channel'' JNull)
                                (dict_get s ''lastChannel'' (JStr ''unknown''))),
                         (''model'', dict_get s ''model'' (JStr ''unknown'')),
                         (''totalTokens'', dict_get s ''totalTokens'' (JInt 0)),
                         (''contextTokens'', dict_get s ''contextTokens'' (JInt 200000)),
                         (''sizeBytes'', dict_get s ''sizeBytes'' (JInt 0)),
                         (''sizeFormatted'',
                          dict_get s ''sizeFormatted'' (JStr [CHR 0xE2, CHR 0x80, CHR 0x94])),
                         (''task'', dict_get s ''task'' JNull)])))"

text \<open>
  The loop of \<^verbatim>\<open>transform_sessions\<close> over the raw sessions: a session whose key
  contains \<^verbatim>\<open>:run:\<close> is skipped before anything else is read of it.
\<close>

fun transform_sessions ::
  "env \<Rightarrow> (string \<times> string) list \<Rightarrow> string \<Rightarrow> raw_session list \<Rightarrow> py_error + pydict list" where
  "transform_sessions e cron_names main_agent_name [] = Inr []"
| "transform_sessions e cron_names main_agent_name ((session_key, s) # raw_sessions) =
     (if str_in '':run:'' session_key
      then transform_sessions e cron_names main_agent_name raw_sessions
      else
        (case transform_session e cron_names main_agent_name (session_key, s) of
           Inl err \<Rightarrow> Inl err
         | Inr row \<Rightarrow>
             (case transform_sessions e cron_names main_agent_name raw_sessions of
                Inl err \<Rightarrow> Inl err
              | Inr rows \<Rightarrow> Inr (row # rows))))"

section \<open>Sequences of operations\<close>

text \<open>
  The operations that change the storage, each with the fault and the clock reading of
  its run, and their effect one after the other.
\<close>

datatype operation =
    Archive archive_fault int string pydict
  | ScriptArchive archive_fault int bool string pydict
  | Restore restore_fault int string

fun apply_operation :: "env \<Rightarrow> operation \<Rightarrow> store \<Rightarrow> store" where
  "apply_operation e (Archive fault now session_key session_data) st =
     snd (archive_session e fault now session_key session_data st)"
| "apply_operation e (ScriptArchive fault now dry_run session_key session_data) st =
     snd (script_archive_session e fault now dry_run session_key session_data st)"
| "apply_operation e (Restore fault now session_key) st =
     snd (restore_session e fault now session_key st)"

fun run_operations :: "env \<Rightarrow> operation list \<Rightarrow> store \<Rightarrow> store" where
  "run_operations e [] st = st"
| "run_operations e (op # ops) st = run_operations e ops (apply_operation e op st)"

text \<open>
  The size accounting the specification asks of the index: \<^verbatim>\<open>totalSize\<close> is the sum of
  \<^verbatim>\<open>compressedSize\<close> over the entries.
\<close>

definition index_consistent :: "store \<Rightarrow> bool" where
  "index_consistent st =
     (totalSize (load_archive_index st) =
        sum_list (map compressedSize (sessions (load_archive_index st))))"

section \<open>Example data\<close>

text \<open>
  A codec that marks a stream with one leading byte; a glob for the patterns
  \<^verbatim>\<open>*ID*.jsonl\<close> with an identifier \<^verbatim>\<open>ID\<close> free of wildcards, which matches the paths
  that end in \<^verbatim>\<open>.jsonl\<close> and contain the identifier before that ending, and refuses the
  empty identifier as pathlib does before Python 3.13; and a storage with one active
  session.
\<close>

definition example_glob :: "string \<Rightarrow> string list \<Rightarrow> py_error + string list" where
  "example_glob pattern paths =
     (let ident = take (length pattern - 8) (drop 1 pattern) in
      if ident = [] then Inl ValueError
      else Inr (filter (\<lambda>p. endswith p ''.jsonl'' \<and> str_in ident (take (length p - 6) p)) paths))"

definition example_env :: env where
  "example_env =
     \<lparr>gzip_compress = (\<lambda>b. CHR ''z'' # b),
      gzip_decompress =
        (\<lambda>b. case b of
                [] \<Rightarrow> ([], False)
              | c # cs \<Rightarrow> if c = CHR ''z'' then (cs, True) else ([], False)),
      py_str = (\<lambda>v. ''None''),
      parse_int = (\<lambda>s. None),
      glob = example_glob,
      extract_first_user_message = (\<lambda>b. Inr JNull)\<rparr>"

definition example_record :: pydict where
  "example_record =
     [(''sessionId'', JStr ''s1''),
      (''updatedAt'', JInt 1000),
      (''lastChannel'', JStr ''signal''),
      (''totalTokens'', JInt 42)]"

definition example_store :: store where
  "example_store =
     \<lparr>session_files = [(''s1.jsonl'', ''hello'')],
      archive_files = [],
      sessions_json = Some [(''agent:main:a'', example_record)],
      index_file = None\<rparr>"

text \<open>The storage after the session of \<open>example_store\<close> is archived.\<close>

definition archived_store :: store where
  "archived_store =
     snd (archive_session example_env NoFault 5 ''agent:main:a'' example_record example_store)"

text \<open>A catalog row whose transcript is not in the directory.\<close>

definition missing_store :: store where
  "missing_store =
     \<lparr>session_files = [],
      archive_files = [],
      sessions_json =
        Some [(''agent:main:b'', [(''sessionId'', JStr ''s2''), (''updatedAt'', JInt 1000)])],
      index_file = None\<rparr>"

text \<open>
  Two expired catalog rows, the first without a transcript, the second with one.
\<close>

definition sweep_store :: store where
  "sweep_store =
     \<lparr>session_files = [(''s1.jsonl'', ''hello'')],
      archive_files = [],
      sessions_json =
        Some [(''agent:main:b'', [(''sessionId'', JStr ''s2''), (''updatedAt'', JInt 1000)]),
              (''agent:main:a'', example_record)],
      index_file = None\<rparr>"

text \<open>
  An agents root that exists and has no agent directory yet, with the default
  \<^verbatim>\<open>SESSIONS_DIR\<close> under it, which then does not exist either.
\<close>

definition fresh_home :: agents_home where
  "fresh_home =
     \<lparr>agents_base = ''/home/u/.openclaw/agents'',
      agents_base_exists = True,
      agents_base_entries = [],
      sessions_dir = ''/home/u/.openclaw/agents/main/sessions'',
      sessions_dir_exists = False\<rparr>"

text \<open>Raw sessions: a cron session, one of its runs, and a Signal direct message.\<close>

definition example_raw_sessions :: "raw_session list" where
  "example_raw_sessions =
     [(''agent:main:cron:job1'', [(''updatedAt'', JInt 3000)]),
      (''agent:main:cron:job1:run:r1'', [(''updatedAt'', JInt 2000)]),
      (''agent:main:signal:dm:signal:+12345678901'',
       [(''origin'', JObj [(''label'', JStr ''signal:+12345678901'')]),
        (''updatedAt'', JInt 1000)])]"

text \<open>
  The storage of \<open>example_store\<close> with the transcript under a longer name, which only the
  glob finds.
\<close>

definition glob_store :: store where
  "glob_store =
     \<lparr>session_files = [(''session-s1.jsonl'', ''hello'')],
      archive_files = [],
      sessions_json = Some [(''agent:main:a'', example_record)],
      index_file = None\<rparr>"

text \<open>
  A catalog around the cutoff of one day at the clock reading 200000000: a session updated
  one millisecond before the cutoff, one at the cutoff, one after it, and one that has no
  \<^verbatim>\<open>updatedAt\<close>.
\<close>

definition boundary_catalog :: "(string \<times> pydict) list" where
  "boundary_catalog =
     [(''agent:main:old'', [(''updatedAt'', JInt 113599999)]),
      (''agent:main:edge'', [(''updatedAt'', JInt 113600000)]),
      (''agent:main:new'', [(''updatedAt'', JInt 113600001)]),
      (''agent:main:undated'', [])]"

text \<open>
  The storage of \<open>archived_store\<close> after the session was restored by its session id,
  which leaves its entry in the index, and was active again: the transcript has grown
  and the catalog row has a later \<^verbatim>\<open>updatedAt\<close> and a model.
\<close>

definition stale_record :: pydict where
  "stale_record =
     [(''sessionId'', JStr ''s1''), (''updatedAt'', JInt 2000), (''model'', JStr ''m2'')]"

definition stale_store :: store where
  "stale_store =
     \<lparr>session_files = [(''s1.jsonl'', ''hello again'')],
      archive_files = [],
      sessions_json = Some [(''agent:main:a'', stale_record)],
      index_file = Some \<lparr>sessions =
        [\<lparr>key = ''agent:main:a'', sessionId = JStr ''s1'', label = JStr ''agent:main:a'',
          archivedAt = 5, originalSize = 5, compressedSize = 6, updatedAt = JInt 1000,
          model = JNull, channel = JStr ''signal'', task = JNull\<rparr>], totalSize = 6\<rparr>\<rparr>"

section \<open>Properties\<close>

subsection \<open>The example storage, archived and restored\<close>

lemmas example_simps =
  example_store_def example_record_def example_env_def example_glob_def
  find_jsonl_file_def format_str_def dict_get_def Let_def path_stem_def path_name_def
  endswith_def load_archive_index_def save_archive_index_def append_to_index_def new_entry_def
  sum_compressed_def py_or_def

lemma archive_example_store:
  "fst (archive_session example_env NoFault 5 ''agent:main:a'' example_record example_store)
   = Inr (True, None)"
  by (simp add: archive_session_def example_simps)

lemma archived_store_eq:
  "archived_store =
     \<lparr>session_files = [],
      archive_files = [(''s1.jsonl.gz'', ''zhello'')],
      sessions_json = Some [],
      index_file = Some \<lparr>sessions =
        [\<lparr>key = ''agent:main:a'', sessionId = JStr ''s1'', label = JStr ''agent:main:a'',
          archivedAt = 5, originalSize = 5, compressedSize = 6, updatedAt = JInt 1000,
          model = JNull, channel = JStr ''signal'', task = JNull\<rparr>], totalSize = 6\<rparr>\<rparr>"
  by (simp add: archived_store_def archive_session_def example_simps)

lemma restore_archived_store_by_key:
  "restore_session example_env NoRestoreFault 9 ''agent:main:a'' archived_store =
     (True,
      \<lparr>session_files = [(''s1.jsonl'', ''hello'')],
       archive_files = [],
       sessions_json = Some [(''agent:main:a'',
          [(''sessionId'', JStr ''s1''), (''label'', JStr ''agent:main:a''),
           (''updatedAt'', JInt 1000), (''model'', JNull), (''channel'', JStr ''signal''),
           (''restoredAt'', JInt 9)])],
       index_file = Some \<lparr>sessions = [], totalSize = 0\<rparr>\<rparr>)"
  by (simp add: archived_store_eq restore_session_def example_env_def format_str_def Let_def
      load_archive_index_def save_archive_index_def restored_row_def sum_compressed_def)

subsection \<open>The retention cutoff\<close>

lemma is_expired_int:
  "map_of session ''updatedAt'' = Some (JInt u) \<Longrightarrow> is_expired cutoff session = Inr (u < cutoff)"
  by (simp add: is_expired_def dict_get_def)

lemma to_archive_is_filter:
  "\<forall>(k, s) \<in> set catalog. \<not> isl (is_expired cutoff s) \<Longrightarrow>
   to_archive cutoff catalog = Inr (filter (\<lambda>(k, s). is_expired cutoff s = Inr True) catalog)"
proof (induction catalog)
  case Nil
  then show ?case by simp
next
  case (Cons a catalog)
  obtain k s where a: "a = (k, s)" by (cases a)
  from Cons.prems a obtain b where b: "is_expired cutoff s = Inr b"
    by (cases "is_expired cutoff s") auto
  from Cons.prems have "\<forall>(k, s) \<in> set catalog. \<not> isl (is_expired cutoff s)" by simp
  from Cons.IH [OF this] a b show ?case by simp
qed

lemma archive_session_returns:
  "\<forall>paths. \<not> isl (glob e (''*'' @ format_str e (dict_get session_data ''sessionId'' (JStr session_key))
                           @ ''*.jsonl'') paths) \<Longrightarrow>
   \<not> isl (fst (archive_session e fault now session_key session_data st))"
proof -
  assume g: "\<forall>paths. \<not> isl (glob e (''*'' @ format_str e
      (dict_get session_data ''sessionId'' (JStr session_key)) @ ''*.jsonl'') paths)"
  have "\<not> isl (find_jsonl_file e st (dict_get session_data ''sessionId'' (JStr session_key)))"
    using g [rule_format, of "map fst (session_files st)"]
    by (auto simp: find_jsonl_file_def Let_def split: sum.splits list.splits)
  then show ?thesis
    by (auto simp: archive_session_def Let_def split: sum.splits option.splits)
qed

lemma run_archive_loop_is_fold:
  assumes "\<forall>(k, s) \<in> set catalog. \<not> isl (is_expired cutoff s)"
    and "\<forall>(k, s) \<in> set catalog. \<forall>paths.
           \<not> isl (glob e (''*'' @ format_str e (dict_get s ''sessionId'' (JStr k)) @ ''*.jsonl'') paths)"
  shows "run_archive_loop e faults clock cutoff catalog n st =
     (Inr (n + int (length (filter (\<lambda>(k, s). is_expired cutoff s = Inr True) catalog))),
      fold (\<lambda>(k, s) st. snd (archive_session e (faults k) (clock k) k s st))
        (filter (\<lambda>(k, s). is_expired cutoff s = Inr True) catalog) st)"
  using assms
proof (induction catalog arbitrary: n st)
  case Nil
  then show ?case by simp
next
  case (Cons a catalog)
  obtain k s where a: "a = (k, s)" by (cases a)
  from Cons.prems a obtain b where b: "is_expired cutoff s = Inr b"
    by (cases "is_expired cutoff s") auto
  from Cons.prems have p1: "\<forall>(k, s) \<in> set catalog. \<not> isl (is_expired cutoff s)" by simp
  from Cons.prems have p2: "\<forall>(k, s) \<in> set catalog. \<forall>paths.
           \<not> isl (glob e (''*'' @ format_str e (dict_get s ''sessionId'' (JStr k)) @ ''*.jsonl'') paths)"
    by simp
  note IH = Cons.IH [OF p1 p2]
  show ?case
  proof (cases b)
    case False
    with a b IH show ?thesis by simp
  next
    case True
    from Cons.prems a have "\<forall>paths.
        \<not> isl (glob e (''*'' @ format_str e (dict_get s ''sessionId'' (JStr k)) @ ''*.jsonl'') paths)"
      by simp
    from archive_session_returns [OF this, of "faults k" "clock k" st]
    have ni: "\<not> isl (fst (archive_session e (faults k) (clock k) k s st))" .
    obtain x st1 where xs: "archive_session e (faults k) (clock k) k s st = (x, st1)"
      by (cases "archive_session e (faults k) (clock k) k s st")
    from ni xs obtain r where "x = Inr r" by (cases x) auto
    with xs have ar: "archive_session e (faults k) (clock k) k s st = (Inr r, st1)" by simp
    with a b True IH show ?thesis by (simp add: tuple_truthy_def)
  qed
qed

text \<open>
  Claim C6. With the cutoff \<^verbatim>\<open>now - d * 86400000\<close>, a session last updated a day before
  the cutoff is selected, one updated a day after it is not, and one updated exactly at
  the cutoff is not: the comparison is strict. Over a catalog in which every
  \<^verbatim>\<open>updatedAt\<close> can be compared with a number (a missing one counts as 0, a value that
  cannot be compared ends either loop with a \<^verbatim>\<open>TypeError\<close>), a session with the number
  \<open>u\<close> is selected exactly when \<open>u\<close> is below the cutoff; the selection of the script is
  the list of the selected sessions of the catalog, in order; and the sweep of the server,
  when the glob raises for none of the sessions, attempts the archival of exactly the
  selected sessions, in order, and of no other.
\<close>

theorem retention_cutoff_is_strict:
  assumes "\<forall>(k, s) \<in> set catalog. \<not> isl (is_expired (cutoff_ms now d) s)"
    and "\<forall>(k, s) \<in> set catalog. \<forall>paths.
           \<not> isl (glob e (''*'' @ format_str e (dict_get s ''sessionId'' (JStr k)) @ ''*.jsonl'') paths)"
  shows "cutoff_ms now d = now - d * 86400000
   \<and> is_expired (cutoff_ms now d)
       (AList.update ''updatedAt'' (JInt (now - (d + 1) * 86400000)) session) = Inr True
   \<and> is_expired (cutoff_ms now d)
       (AList.update ''updatedAt'' (JInt (now - (d - 1) * 86400000)) session) = Inr False
   \<and> is_expired (cutoff_ms now d)
       (AList.update ''updatedAt'' (JInt (cutoff_ms now d)) session) = Inr False
   \<and> (\<forall>(k, s) \<in> set catalog. \<forall>u. map_of s ''updatedAt'' = Some (JInt u) \<longrightarrow>
         (is_expired (cutoff_ms now d) s = Inr True) = (u < now - d * 86400000))
   \<and> to_archive (cutoff_ms now d) catalog =
       Inr (filter (\<lambda>(k, s). is_expired (cutoff_ms now d) s = Inr True) catalog)
   \<and> run_archive_loop e faults clock (cutoff_ms now d) catalog n st =
       (Inr (n + int (length
                (filter (\<lambda>(k, s). is_expired (cutoff_ms now d) s = Inr True) catalog))),
        fold (\<lambda>(k, s) st. snd (archive_session e (faults k) (clock k) k s st))
          (filter (\<lambda>(k, s). is_expired (cutoff_ms now d) s = Inr True) catalog) st)"
proof -
  have c: "cutoff_ms now d = now - d * 86400000"
    by (simp add: cutoff_ms_def)
  have u: "\<forall>(k, s) \<in> set catalog. \<forall>u. map_of s ''updatedAt'' = Some (JInt u) \<longrightarrow>
         (is_expired (cutoff_ms now d) s = Inr True) = (u < now - d * 86400000)"
    by (auto simp: is_expired_int c)
  have three: "is_expired (cutoff_ms now d)
       (AList.update ''updatedAt'' (JInt (now - (d + 1) * 86400000)) session) = Inr True
   \<and> is_expired (cutoff_ms now d)
       (AList.update ''updatedAt'' (JInt (now - (d - 1) * 86400000)) session) = Inr False
   \<and> is_expired (cutoff_ms now d)
       (AList.update ''updatedAt'' (JInt (cutoff_ms now d)) session) = Inr False"
    by (simp add: is_expired_def dict_get_def cutoff_ms_def update_conv' algebra_simps)
  from c u three to_archive_is_filter [OF assms(1)] run_archive_loop_is_fold [OF assms]
  show ?thesis by blast
qed

theorem retention_cutoff_witness:
  "cutoff_ms 200000000 1 = 113600000
   \<and> map (\<lambda>(k, s). is_expired (cutoff_ms 200000000 1) s) boundary_catalog
       = [Inr True, Inr False, Inr False, Inr True]
   \<and> to_archive (cutoff_ms 200000000 1) boundary_catalog
       = Inr [(''agent:main:old'', [(''updatedAt'', JInt 113599999)]), (''agent:main:undated'', [])]
   \<and> run_archive_loop example_env (\<lambda>k. NoFault) (\<lambda>k. 5) (cutoff_ms 200000000 1)
         boundary_catalog 0 example_store
       = (Inr 2, example_store)"
proof -
  have c: "cutoff_ms 200000000 1 = 113600000"
    by (simp add: cutoff_ms_def)
  have ex: "map (\<lambda>(k, s). is_expired (cutoff_ms 200000000 1) s) boundary_catalog
       = [Inr True, Inr False, Inr False, Inr True]"
    unfolding c by (simp add: boundary_catalog_def is_expired_def dict_get_def)
  have h1: "\<forall>(k, s) \<in> set boundary_catalog. \<not> isl (is_expired (cutoff_ms 200000000 1) s)"
    unfolding c by (simp add: boundary_catalog_def is_expired_def dict_get_def)
  have h2: "\<forall>(k, s) \<in> set boundary_catalog. \<forall>paths.
           \<not> isl (glob example_env
                    (''*'' @ format_str example_env (dict_get s ''sessionId'' (JStr k))
                       @ ''*.jsonl'') paths)"
    by (simp add: boundary_catalog_def format_str_def dict_get_def example_env_def
          example_glob_def)
  have fl: "filter (\<lambda>(k, s). is_expired (cutoff_ms 200000000 1) s = Inr True) boundary_catalog
      = [(''agent:main:old'', [(''updatedAt'', JInt 113599999)]), (''agent:main:undated'', [])]"
    unfolding c by (simp add: boundary_catalog_def is_expired_def dict_get_def)
  have a1: "archive_session example_env NoFault 5 ''agent:main:old''
       [(''updatedAt'', JInt 113599999)] example_store
     = (Inr (False, Some (TranscriptNotFound ''agent:main:old.jsonl'')), example_store)"
    by (simp add: archive_session_def find_jsonl_file_def format_str_def dict_get_def Let_def
          example_store_def example_env_def example_glob_def endswith_def)
  have a2: "archive_session example_env NoFault 5 ''agent:main:undated'' [] example_store
     = (Inr (False, Some (TranscriptNotFound ''agent:main:undated.jsonl'')), example_store)"
    by (simp add: archive_session_def find_jsonl_file_def format_str_def dict_get_def Let_def
          example_store_def example_env_def example_glob_def endswith_def)
  note t = retention_cutoff_is_strict
    [OF h1 h2, where session = "[]" and faults = "\<lambda>k. NoFault" and clock = "\<lambda>k. 5"
       and n = 0 and st = example_store]
  from t have ta: "to_archive (cutoff_ms 200000000 1) boundary_catalog =
       Inr (filter (\<lambda>(k, s). is_expired (cutoff_ms 200000000 1) s = Inr True) boundary_catalog)"
    by blast
  from t have lp: "run_archive_loop example_env (\<lambda>k. NoFault) (\<lambda>k. 5) (cutoff_ms 200000000 1)
         boundary_catalog 0 example_store =
       (Inr (0 + int (length
                (filter (\<lambda>(k, s). is_expired (cutoff_ms 200000000 1) s = Inr True)
                   boundary_catalog))),
        fold (\<lambda>(k, s) st. snd (archive_session example_env NoFault 5 k s st))
          (filter (\<lambda>(k, s). is_expired (cutoff_ms 200000000 1) s = Inr True) boundary_catalog)
          example_store)"
    by blast
  from c ex ta lp show ?thesis
    unfolding fl by (simp add: a1 a2)
qed

subsection \<open>A missing transcript\<close>

lemma find_jsonl_file_exact:
  "map_of (session_files st) (format_str e sid @ ''.jsonl'') = Some content \<Longrightarrow>
   find_jsonl_file e st sid = Inr (Some (format_str e sid @ ''.jsonl''))"
  by (simp add: find_jsonl_file_def Let_def)

lemma find_jsonl_file_none:
  "map_of (session_files st) (format_str e sid @ ''.jsonl'') = None \<Longrightarrow>
   glob e (''*'' @ format_str e sid @ ''*.jsonl'') (map fst (session_files st)) = Inr [] \<Longrightarrow>
   find_jsonl_file e st sid = Inr None"
  by (simp add: find_jsonl_file_def Let_def)

lemma find_jsonl_file_raises:
  "map_of (session_files st) (format_str e sid @ ''.jsonl'') = None \<Longrightarrow>
   glob e (''*'' @ format_str e sid @ ''*.jsonl'') (map fst (session_files st)) = Inl err \<Longrightarrow>
   find_jsonl_file e st sid = Inl err"
  by (simp add: find_jsonl_file_def Let_def)

text \<open>
  Claim C4. When the directory holds no file \<^verbatim>\<open>{sessionId}.jsonl\<close> and the glob
  \<^verbatim>\<open>*{sessionId}*.jsonl\<close> yields no path, \<^verbatim>\<open>archive_session\<close> returns the
  transcript-not-found failure and leaves the storage (catalog, index and files) as it
  was, whatever fault the run was exposed to; so does the function of the script, which
  returns False. When the glob raises instead, on a pattern that pathlib refuses, the
  exception leaves both functions, and the storage is as it was as well.
\<close>

theorem archive_missing_transcript_no_mutation:
  "(map_of (session_files st)
      (format_str e (dict_get session_data ''sessionId'' (JStr session_key)) @ ''.jsonl'') = None
    \<and> glob e (''*'' @ format_str e (dict_get session_data ''sessionId'' (JStr session_key))
                 @ ''*.jsonl'')
          (map fst (session_files st)) = Inr []
    \<longrightarrow> archive_session e fault now session_key session_data st =
          (Inr (False, Some (TranscriptNotFound
             (format_str e (dict_get session_data ''sessionId'' (JStr session_key)) @ ''.jsonl''))),
           st)
        \<and> script_archive_session e fault now dry_run session_key session_data st
          = (Inr False, st))
   \<and> (map_of (session_files st)
      (format_str e (dict_get session_data ''sessionId'' (JStr session_key)) @ ''.jsonl'') = None
    \<and> glob e (''*'' @ format_str e (dict_get session_data ''sessionId'' (JStr session_key))
                 @ ''*.jsonl'')
          (map fst (session_files st)) = Inl err
    \<longrightarrow> archive_session e fault now session_key session_data st = (Inl err, st)
        \<and> script_archive_session e fault now dry_run session_key session_data st
          = (Inl err, st))"
  by (simp add: archive_session_def script_archive_session_def Let_def find_jsonl_file_none
        find_jsonl_file_raises)

theorem archive_missing_transcript_witness:
  "archive_session example_env NoFault 5 ''agent:main:b'' [(''sessionId'', JStr ''s2'')]
       example_store
     = (Inr (False, Some (TranscriptNotFound ''s2.jsonl'')), example_store)
   \<and> script_archive_session example_env NoFault 5 False ''agent:main:b''
         [(''sessionId'', JStr ''s2'')] example_store
     = (Inr False, example_store)
   \<and> glob example_env ''**.jsonl'' (map fst (session_files example_store)) = Inl ValueError
   \<and> archive_session example_env NoFault 5 ''agent:main:b'' [(''sessionId'', JStr [])]
       example_store
     = (Inl ValueError, example_store)
   \<and> script_archive_session example_env NoFault 5 False ''agent:main:b''
         [(''sessionId'', JStr [])] example_store
     = (Inl ValueError, example_store)"
proof -
  let ?d1 = "[(''sessionId'', JStr ''s2'')]"
  let ?d2 = "[(''sessionId'', JStr [])]"
  have f1: "format_str example_env (dict_get ?d1 ''sessionId'' (JStr ''agent:main:b'')) = ''s2''"
    by (simp add: format_str_def dict_get_def)
  have f2: "format_str example_env (dict_get ?d2 ''sessionId'' (JStr ''agent:main:b'')) = []"
    by (simp add: format_str_def dict_get_def)
  have h1: "map_of (session_files example_store)
      (format_str example_env (dict_get ?d1 ''sessionId'' (JStr ''agent:main:b'')) @ ''.jsonl'')
        = None
    \<and> glob example_env
         (''*'' @ format_str example_env (dict_get ?d1 ''sessionId'' (JStr ''agent:main:b''))
            @ ''*.jsonl'')
         (map fst (session_files example_store)) = Inr []"
    unfolding f1
    by (simp add: example_store_def example_env_def example_glob_def endswith_def)
  have g2: "glob example_env ''**.jsonl'' (map fst (session_files example_store))
      = Inl ValueError"
    by (simp add: example_store_def example_env_def example_glob_def)
  have h2: "map_of (session_files example_store)
      (format_str example_env (dict_get ?d2 ''sessionId'' (JStr ''agent:main:b'')) @ ''.jsonl'')
        = None
    \<and> glob example_env
         (''*'' @ format_str example_env (dict_get ?d2 ''sessionId'' (JStr ''agent:main:b''))
            @ ''*.jsonl'')
         (map fst (session_files example_store)) = Inl ValueError"
    unfolding f2 using g2 by (simp add: example_store_def)
  note t1 = archive_missing_transcript_no_mutation
    [where st = example_store and e = example_env and session_data = ?d1
       and session_key = "''agent:main:b''" and fault = NoFault and now = 5
       and dry_run = False and err = ValueError, THEN conjunct1, THEN mp, OF h1]
  note t2 = archive_missing_transcript_no_mutation
    [where st = example_store and e = example_env and session_data = ?d2
       and session_key = "''agent:main:b''" and fault = NoFault and now = 5
       and dry_run = False and err = ValueError, THEN conjunct2, THEN mp, OF h2]
  from t1 t2 g2 show ?thesis
    unfolding f1 f2 by simp
qed

subsection \<open>Size accounting of the archive index\<close>

lemma index_consistent_archive_session:
  "index_consistent st \<Longrightarrow>
   index_consistent (snd (archive_session e fault now session_key session_data st))"
  by (auto simp: archive_session_def index_consistent_def load_archive_index_def
        save_archive_index_def cleanup_partial_def append_to_index_def sum_compressed_def Let_def
      split: option.splits prod.splits sum.splits)

lemma index_consistent_script_archive_session:
  "index_consistent st \<Longrightarrow>
   index_consistent (snd (script_archive_session e fault now dry_run session_key session_data st))"
  by (auto simp: script_archive_session_def index_consistent_def load_archive_index_def
        save_archive_index_def append_to_index_def sum_compressed_def Let_def
      split: option.splits prod.splits sum.splits)

lemma index_consistent_restore_session:
  "index_consistent st \<Longrightarrow> index_consistent (snd (restore_session e fault now session_key st))"
  by (auto simp: restore_session_def index_consistent_def load_archive_index_def
        save_archive_index_def sum_compressed_def Let_def
      split: option.splits prod.splits)

lemma index_consistent_after_archive:
  "fst (archive_session e fault now session_key session_data st) = Inr (True, None) \<Longrightarrow>
   index_consistent (snd (archive_session e fault now session_key session_data st))"
  by (auto simp: archive_session_def index_consistent_def load_archive_index_def
        save_archive_index_def cleanup_partial_def append_to_index_def sum_compressed_def Let_def
      split: option.splits prod.splits if_splits sum.splits)

lemma index_consistent_after_restore:
  "fst (restore_session e fault now session_key st) \<Longrightarrow>
   index_consistent (snd (restore_session e fault now session_key st))"
  by (auto simp: restore_session_def index_consistent_def load_archive_index_def
        save_archive_index_def sum_compressed_def Let_def
      split: option.splits prod.splits if_splits)

lemma index_consistent_run_operations:
  "index_consistent st \<Longrightarrow> index_consistent (run_operations e ops st)"
proof (induction ops arbitrary: st)
  case Nil
  then show ?case by simp
next
  case (Cons op ops)
  have "index_consistent (apply_operation e op st)"
    using Cons.prems
    by (cases op)
       (simp_all add: index_consistent_archive_session index_consistent_script_archive_session
          index_consistent_restore_session)
  then show ?case using Cons.IH by simp
qed

text \<open>
  Claim C3. After any sequence of archive and restore operations, run with any faults,
  \<^verbatim>\<open>totalSize\<close> of the archive index equals the sum of \<^verbatim>\<open>compressedSize\<close> over its
  entries, provided it did before the sequence (as it does for an index that does not
  exist yet). Every write of the index recomputes the sum from the entries: an archival
  or a restore that succeeds leaves the two equal even when they were not before.
\<close>

theorem total_size_is_sum_after_operations:
  "(totalSize (load_archive_index st) =
      sum_list (map compressedSize (sessions (load_archive_index st)))
    \<longrightarrow> totalSize (load_archive_index (run_operations e ops st)) =
          sum_list (map compressedSize (sessions (load_archive_index (run_operations e ops st)))))
   \<and> (fst (archive_session e fault now session_key session_data st) = Inr (True, None)
      \<longrightarrow> totalSize (load_archive_index
             (snd (archive_session e fault now session_key session_data st))) =
          sum_list (map compressedSize (sessions (load_archive_index
             (snd (archive_session e fault now session_key session_data st))))))
   \<and> (fst (restore_session e rfault now session_key st)
      \<longrightarrow> totalSize (load_archive_index (snd (restore_session e rfault now session_key st))) =
          sum_list (map compressedSize (sessions (load_archive_index
             (snd (restore_session e rfault now session_key st))))))"
  using index_consistent_run_operations [of st e ops]
    index_consistent_after_archive [of e fault now session_key session_data st]
    index_consistent_after_restore [of e rfault now session_key st]
  by (simp add: index_consistent_def)

theorem total_size_is_sum_witness:
  "index_consistent example_store
   \<and> index_consistent
       (run_operations example_env
          [Archive NoFault 5 ''agent:main:a'' example_record,
           Restore NoRestoreFault 9 ''agent:main:a'']
          example_store)
   \<and> fst (archive_session example_env NoFault 5 ''agent:main:a'' example_record example_store)
       = Inr (True, None)
   \<and> index_consistent archived_store
   \<and> totalSize (load_archive_index archived_store) = 6
   \<and> map compressedSize (sessions (load_archive_index archived_store)) = [6]
   \<and> fst (restore_session example_env NoRestoreFault 9 ''agent:main:a'' archived_store)
   \<and> index_consistent
       (snd (restore_session example_env NoRestoreFault 9 ''agent:main:a'' archived_store))"
proof -
  let ?ops = "[Archive NoFault 5 ''agent:main:a'' example_record,
               Restore NoRestoreFault 9 ''agent:main:a'']"
  have h: "totalSize (load_archive_index example_store) =
      sum_list (map compressedSize (sessions (load_archive_index example_store)))"
    by (simp add: load_archive_index_def example_store_def)
  have a: "fst (archive_session example_env NoFault 5 ''agent:main:a'' example_record
                  example_store) = Inr (True, None)"
    by (rule archive_example_store)
  have r: "fst (restore_session example_env NoRestoreFault 9 ''agent:main:a'' archived_store)"
    by (simp add: restore_archived_store_by_key)
  note t = total_size_is_sum_after_operations
    [where st = example_store and e = example_env and ops = ?ops and fault = NoFault
       and now = 5 and session_key = "''agent:main:a''" and session_data = example_record
       and rfault = NoRestoreFault]
  note t' = total_size_is_sum_after_operations
    [where st = archived_store and e = example_env and ops = ?ops and fault = NoFault
       and now = 9 and session_key = "''agent:main:a''" and session_data = example_record
       and rfault = NoRestoreFault]
  have c1: "index_consistent (run_operations example_env ?ops example_store)"
    unfolding index_consistent_def by (rule t [THEN conjunct1, THEN mp, OF h])
  have c2: "index_consistent archived_store"
    unfolding index_consistent_def archived_store_def
    by (rule t [THEN conjunct2, THEN conjunct1, THEN mp, OF a])
  have c3: "index_consistent
       (snd (restore_session example_env NoRestoreFault 9 ''agent:main:a'' archived_store))"
    unfolding index_consistent_def
    by (rule t' [THEN conjunct2, THEN conjunct2, THEN mp, OF r])
  have v: "totalSize (load_archive_index archived_store) = 6
     \<and> map compressedSize (sessions (load_archive_index archived_store)) = [6]"
    by (simp add: archived_store_eq load_archive_index_def)
  from h a r c1 c2 c3 v show ?thesis
    by (simp add: index_consistent_def)
qed

subsection \<open>The restored catalog row\<close>

lemma restored_row_keys:
  "map fst (restored_row session_info now) =
     [''sessionId'', ''label'', ''updatedAt'', ''model'', ''channel'', ''restoredAt'']"
  by (simp add: restored_row_def)

lemma restored_row_dom:
  "dom (map_of (restored_row session_info now)) =
     {''sessionId'', ''label'', ''updatedAt'', ''model'', ''channel'', ''restoredAt''}"
  by (simp add: restored_row_def dom_map_of_conv_image_fst)

text \<open>
  Claim C10. When \<^verbatim>\<open>restore_session\<close> succeeds, the catalog holds, under the key of the
  index entry it found, a row with exactly the six fields \<^verbatim>\<open>sessionId\<close>, \<^verbatim>\<open>label\<close>,
  \<^verbatim>\<open>updatedAt\<close>, \<^verbatim>\<open>model\<close>, \<^verbatim>\<open>channel\<close> and \<^verbatim>\<open>restoredAt\<close>; no other field of
  the record that was archived is in it.
\<close>

theorem restored_row_has_exactly_six_fields:
  assumes "fst (restore_session e fault now session_key st)"
  shows "\<exists>session_info catalog.
           find (\<lambda>s. key s = session_key \<or> sessionId s = JStr session_key)
             (sessions (load_archive_index st)) = Some session_info
         \<and> sessions_json (snd (restore_session e fault now session_key st)) = Some catalog
         \<and> map_of catalog (key session_info) = Some (restored_row session_info now)
         \<and> map fst (restored_row session_info now) =
             [''sessionId'', ''label'', ''updatedAt'', ''model'', ''channel'', ''restoredAt'']
         \<and> dom (map_of (restored_row session_info now)) =
             {''sessionId'', ''label'', ''updatedAt'', ''model'', ''channel'', ''restoredAt''}"
  using assms
  by (auto simp: restore_session_def Let_def save_archive_index_def update_conv' restored_row_keys
        restored_row_dom
      split: option.splits if_splits)

theorem restored_row_witness:
  "fst (restore_session example_env NoRestoreFault 9 ''agent:main:a'' archived_store)
   \<and> map_of (the (sessions_json
        (snd (restore_session example_env NoRestoreFault 9 ''agent:main:a'' archived_store))))
        ''agent:main:a''
     = Some [(''sessionId'', JStr ''s1''), (''label'', JStr ''agent:main:a''),
             (''updatedAt'', JInt 1000), (''model'', JNull), (''channel'', JStr ''signal''),
             (''restoredAt'', JInt 9)]
   \<and> map_of example_record ''totalTokens'' = Some (JInt 42)"
proof -
  have h: "fst (restore_session example_env NoRestoreFault 9 ''agent:main:a'' archived_store)"
    by (simp add: restore_archived_store_by_key)
  from restored_row_has_exactly_six_fields [OF h] h show ?thesis
    by (simp add: restore_archived_store_by_key example_record_def)
qed

subsection \<open>Restoring by session id\<close>

text \<open>
  Claim C2, at the input where the code departs from it. The archived session has the
  key \<^verbatim>\<open>agent:main:a\<close> and the session id \<^verbatim>\<open>s1\<close>. Restoring it by its session id
  succeeds, writes the transcript and the catalog row and deletes the compressed file, but
  the entry stays in the index and \<^verbatim>\<open>totalSize\<close> still counts its 6 bytes: the entry is
  found by key or session id, and removed by \<^verbatim>\<open>s['key'] != session_key\<close> only.
\<close>

theorem restore_by_session_id_keeps_index_entry:
  "restore_session example_env NoRestoreFault 9 ''s1'' archived_store =
     (True,
      \<lparr>session_files = [(''s1.jsonl'', ''hello'')],
       archive_files = [],
       sessions_json = Some [(''agent:main:a'',
          [(''sessionId'', JStr ''s1''), (''label'', JStr ''agent:main:a''),
           (''updatedAt'', JInt 1000), (''model'', JNull), (''channel'', JStr ''signal''),
           (''restoredAt'', JInt 9)])],
       index_file = Some \<lparr>sessions =
        [\<lparr>key = ''agent:main:a'', sessionId = JStr ''s1'', label = JStr ''agent:main:a'',
          archivedAt = 5, originalSize = 5, compressedSize = 6, updatedAt = JInt 1000,
          model = JNull, channel = JStr ''signal'', task = JNull\<rparr>], totalSize = 6\<rparr>\<rparr>)"
  by (simp add: archived_store_eq restore_session_def example_env_def format_str_def Let_def
      load_archive_index_def save_archive_index_def restored_row_def sum_compressed_def)

subsection \<open>Archive, then restore\<close>

text \<open>
  Claim C5, at an input where the code departs from it. The transcript of the session
  with the id \<^verbatim>\<open>s1\<close> is the file \<^verbatim>\<open>session-s1.jsonl\<close>, which only the glob finds. The
  archival succeeds and names the compressed file after the stem of the transcript,
  \<^verbatim>\<open>session-s1.jsonl.gz\<close>; the restore that follows looks for \<^verbatim>\<open>s1.jsonl.gz\<close>, finds
  no such file and returns False. No catalog row and no transcript come back, and the
  compressed file and the index entry stay.
\<close>

theorem restore_after_glob_archive_fails:
  "fst (archive_session example_env NoFault 5 ''agent:main:a'' example_record glob_store)
     = Inr (True, None)
   \<and> restore_after_archive example_env 5 9 ''agent:main:a'' example_record glob_store =
     (False,
      \<lparr>session_files = [],
       archive_files = [(''session-s1.jsonl.gz'', ''zhello'')],
       sessions_json = Some [],
       index_file = Some \<lparr>sessions =
        [\<lparr>key = ''agent:main:a'', sessionId = JStr ''s1'', label = JStr ''agent:main:a'',
          archivedAt = 5, originalSize = 5, compressedSize = 6, updatedAt = JInt 1000,
          model = JNull, channel = JStr ''signal'', task = JNull\<rparr>], totalSize = 6\<rparr>\<rparr>)"
  by (simp add: restore_after_archive_def restore_session_def archive_session_def glob_store_def
      example_simps)

text \<open>
  Where the round trip holds. Take a session whose transcript is the file
  \<^verbatim>\<open>{sessionId}.jsonl\<close> itself, with a session id that is not empty and has no \<^verbatim>\<open>/\<close>,
  a transcript from which \<^verbatim>\<open>extract_first_user_message\<close> returns, a codec that gives
  the transcript back, and an index that holds no entry with the session's key, or with
  that key as its session id. Archiving it and restoring it by its key, both without
  fault, succeeds; the catalog row then carries the record's \<^verbatim>\<open>sessionId\<close> (the key when
  the record has none), its \<^verbatim>\<open>model\<close> (null when it has none), its \<^verbatim>\<open>updatedAt\<close>
  (0 when it has none) and, as \<^verbatim>\<open>channel\<close>, the record's \<^verbatim>\<open>channel\<close> or, when that is
  missing or empty, its \<^verbatim>\<open>lastChannel\<close>; and the transcript file holds the bytes it held
  before.
\<close>

lemma path_name_plain: "CHR ''/'' \<notin> set p \<Longrightarrow> path_name p = p"
proof -
  assume "CHR ''/'' \<notin> set p"
  then have "takeWhile (\<lambda>c. c \<noteq> CHR ''/'') (rev p) = rev p"
    by (intro takeWhile_eq_all_conv [THEN iffD2]) auto
  then show ?thesis unfolding path_name_def by (simp only: rev_rev_ident)
qed

lemma path_stem_jsonl:
  assumes "x \<noteq> []" and "CHR ''/'' \<notin> set x"
  shows "path_stem (x @ ''.jsonl'') = x"
proof -
  have n: "path_name (x @ ''.jsonl'') = x @ ''.jsonl''"
    using assms(2) by (intro path_name_plain) simp
  have s: "takeWhile (\<lambda>c. c \<noteq> CHR ''.'') (rev (x @ ''.jsonl'')) = ''lnosj''"
    by simp
  show ?thesis
    unfolding path_stem_def n Let_def s using assms(1) by simp
qed

lemma find_fresh:
  "\<forall>s \<in> set xs. \<not> P s \<Longrightarrow> P x \<Longrightarrow> find P (xs @ [x]) = Some x"
  by (induction xs) auto

lemma archive_session_exact_file:
  assumes exact: "map_of (session_files st)
             (format_str e (dict_get session_data ''sessionId'' (JStr session_key)) @ ''.jsonl'')
           = Some content"
    and nonempty: "format_str e (dict_get session_data ''sessionId'' (JStr session_key)) \<noteq> []"
    and plain: "CHR ''/'' \<notin> set (format_str e (dict_get session_data ''sessionId'' (JStr session_key)))"
    and first: "extract_first_user_message e content = Inr first_message"
  shows "archive_session e NoFault t1 session_key session_data st =
     (Inr (True, None),
      st\<lparr>archive_files :=
           AList.update
             (format_str e (dict_get session_data ''sessionId'' (JStr session_key)) @ ''.jsonl.gz'')
             (gzip_compress e content) (archive_files st),
         index_file := Some (append_to_index
                               (new_entry e t1 session_key session_data content first_message)
                               (load_archive_index st)),
         session_files :=
           AList.delete
             (format_str e (dict_get session_data ''sessionId'' (JStr session_key)) @ ''.jsonl'')
             (session_files st),
         sessions_json := map_option (AList.delete session_key) (sessions_json st)\<rparr>)"
proof -
  have f: "find_jsonl_file e st (dict_get session_data ''sessionId'' (JStr session_key)) =
      Inr (Some (format_str e (dict_get session_data ''sessionId'' (JStr session_key)) @ ''.jsonl''))"
    using exact by (simp add: find_jsonl_file_def Let_def)
  have d: "\<And>c. map_of c session_key = None \<Longrightarrow> AList.delete session_key c = c"
    by (simp add: map_of_eq_None_iff)
  show ?thesis
    by (cases "sessions_json st")
       (auto simp: archive_session_def f exact first Let_def path_stem_jsonl [OF nonempty plain]
          save_archive_index_def load_archive_index_def d)
qed

lemma restore_after_archive_state:
  assumes exact: "map_of (session_files st)
             (format_str e (dict_get session_data ''sessionId'' (JStr session_key)) @ ''.jsonl'')
           = Some content"
    and nonempty: "format_str e (dict_get session_data ''sessionId'' (JStr session_key)) \<noteq> []"
    and plain: "CHR ''/'' \<notin> set (format_str e (dict_get session_data ''sessionId'' (JStr session_key)))"
    and first: "extract_first_user_message e content = Inr first_message"
    and codec: "gzip_decompress e (gzip_compress e content) = (content, True)"
    and fresh: "\<forall>s \<in> set (sessions (load_archive_index st)).
                  key s \<noteq> session_key \<and> sessionId s \<noteq> JStr session_key"
  shows "restore_after_archive e t1 t2 session_key session_data st =
      (True,
       st\<lparr>session_files :=
            AList.update
              (format_str e (dict_get session_data ''sessionId'' (JStr session_key)) @ ''.jsonl'')
              content
              (AList.delete
                 (format_str e (dict_get session_data ''sessionId'' (JStr session_key)) @ ''.jsonl'')
                 (session_files st)),
          archive_files :=
            AList.delete
              (format_str e (dict_get session_data ''sessionId'' (JStr session_key)) @ ''.jsonl.gz'')
              (archive_files st),
          sessions_json :=
            Some (AList.update session_key
                    [(''sessionId'', dict_get session_data ''sessionId'' (JStr session_key)),
                     (''label'', dict_get session_data ''label'' (JStr session_key)),
                     (''updatedAt'', dict_get session_data ''updatedAt'' (JInt 0)),
                     (''model'', dict_get session_data ''model'' JNull),
                     (''channel'', py_or (dict_get session_data ''channel'' JNull)
                                      (dict_get session_data ''lastChannel'' JNull)),
                     (''restoredAt'', JInt t2)]
                    (case sessions_json st of None \<Rightarrow> [] | Some c \<Rightarrow> AList.delete session_key c)),
          index_file :=
            Some \<lparr>sessions = sessions (load_archive_index st),
                  totalSize = sum_list (map compressedSize (sessions (load_archive_index st)))\<rparr>\<rparr>)"
proof -
  let ?sid = "dict_get session_data ''sessionId'' (JStr session_key)"
  let ?entry = "new_entry e t1 session_key session_data content first_message"
  let ?P = "\<lambda>s. key s = session_key \<or> sessionId s = JStr session_key"
  define st1 where "st1 = snd (archive_session e NoFault t1 session_key session_data st)"
  have st1: "st1 = st\<lparr>archive_files :=
           AList.update (format_str e ?sid @ ''.jsonl.gz'') (gzip_compress e content)
             (archive_files st),
         index_file := Some (append_to_index ?entry (load_archive_index st)),
         session_files := AList.delete (format_str e ?sid @ ''.jsonl'') (session_files st),
         sessions_json := map_option (AList.delete session_key) (sessions_json st)\<rparr>"
    by (simp add: st1_def archive_session_exact_file [OF exact nonempty plain first])
  have idx: "load_archive_index st1 = append_to_index ?entry (load_archive_index st)"
    by (simp add: st1 load_archive_index_def)
  have fnd: "find ?P (sessions (load_archive_index st1)) = Some ?entry"
    unfolding idx append_to_index_def using fresh
    by (simp, intro find_fresh) (auto simp: new_entry_def)
  have flt: "filter (\<lambda>s. key s \<noteq> session_key) (sessions (load_archive_index st1))
             = sessions (load_archive_index st)"
    unfolding idx append_to_index_def using fresh by (auto simp: new_entry_def filter_id_conv)
  have ent: "sessionId ?entry = ?sid" "key ?entry = session_key"
    by (simp_all add: new_entry_def)
  have gz: "map_of (archive_files st1) (format_str e ?sid @ ''.jsonl.gz'')
            = Some (gzip_compress e content)"
    by (simp add: st1 update_conv')
  have r: "restore_session e NoRestoreFault t2 session_key st1 =
     (True,
      st1\<lparr>session_files :=
             AList.update (format_str e ?sid @ ''.jsonl'') content (session_files st1),
          sessions_json := Some (AList.update session_key (restored_row ?entry t2)
                                   (case sessions_json st1 of None \<Rightarrow> [] | Some c \<Rightarrow> c)),
          archive_files := AList.delete (format_str e ?sid @ ''.jsonl.gz'') (archive_files st1),
          index_file := Some \<lparr>sessions = sessions (load_archive_index st),
                               totalSize = sum_list (map compressedSize
                                             (sessions (load_archive_index st)))\<rparr>\<rparr>)"
    by (simp add: restore_session_def Let_def fnd flt ent gz codec save_archive_index_def
          sum_compressed_def)
  show ?thesis
    unfolding restore_after_archive_def st1_def [symmetric] r
    by (cases "sessions_json st")
       (simp_all add: st1 restored_row_def new_entry_def delete_update_same)
qed

lemma archive_then_restore_exact_file:
  assumes exact: "map_of (session_files st)
             (format_str e (dict_get session_data ''sessionId'' (JStr session_key)) @ ''.jsonl'')
           = Some content"
    and nonempty: "format_str e (dict_get session_data ''sessionId'' (JStr session_key)) \<noteq> []"
    and plain: "CHR ''/'' \<notin> set (format_str e (dict_get session_data ''sessionId'' (JStr session_key)))"
    and first: "extract_first_user_message e content = Inr first_message"
    and codec: "gzip_decompress e (gzip_compress e content) = (content, True)"
    and fresh: "\<forall>s \<in> set (sessions (load_archive_index st)).
                  key s \<noteq> session_key \<and> sessionId s \<noteq> JStr session_key"
  shows "fst (archive_session e NoFault t1 session_key session_data st) = Inr (True, None)
    \<and> fst (restore_after_archive e t1 t2 session_key session_data st)
    \<and> (\<exists>catalog.
          sessions_json (snd (restore_after_archive e t1 t2 session_key session_data st))
            = Some catalog
        \<and> map_of catalog session_key =
            Some [(''sessionId'', dict_get session_data ''sessionId'' (JStr session_key)),
                  (''label'', dict_get session_data ''label'' (JStr session_key)),
                  (''updatedAt'', dict_get session_data ''updatedAt'' (JInt 0)),
                  (''model'', dict_get session_data ''model'' JNull),
                  (''channel'', py_or (dict_get session_data ''channel'' JNull)
                                   (dict_get session_data ''lastChannel'' JNull)),
                  (''restoredAt'', JInt t2)])
    \<and> map_of (session_files (snd (restore_after_archive e t1 t2 session_key session_data st)))
         (format_str e (dict_get session_data ''sessionId'' (JStr session_key)) @ ''.jsonl'')
       = Some content"
  by (simp add: archive_session_exact_file [OF exact nonempty plain first]
        restore_after_archive_state [OF exact nonempty plain first codec fresh] update_conv')

text \<open>
  An index entry that a restore by session id left behind is found before the entry of a
  later archival of the same key: the restored row then has the \<^verbatim>\<open>updatedAt\<close> and the
  \<^verbatim>\<open>model\<close> of the earlier archival, not those of the record just archived.
\<close>

lemma restore_after_archive_stale_entry:
  "restore_after_archive example_env 20 30 ''agent:main:a'' stale_record stale_store =
     (True,
      \<lparr>session_files = [(''s1.jsonl'', ''hello again'')],
       archive_files = [],
       sessions_json = Some [(''agent:main:a'',
          [(''sessionId'', JStr ''s1''), (''label'', JStr ''agent:main:a''),
           (''updatedAt'', JInt 1000), (''model'', JNull), (''channel'', JStr ''signal''),
           (''restoredAt'', JInt 30)])],
       index_file = Some \<lparr>sessions = [], totalSize = 0\<rparr>\<rparr>)"
  by (simp add: restore_after_archive_def restore_session_def archive_session_def stale_store_def
      stale_record_def restored_row_def example_env_def example_glob_def
  find_jsonl_file_def format_str_def dict_get_def Let_def path_stem_def path_name_def
  endswith_def load_archive_index_def save_archive_index_def append_to_index_def new_entry_def
  sum_compressed_def py_or_def)

subsection \<open>The count of the retention sweep\<close>

lemma run_archive_loop_counts_attempts:
  "run_archive_loop e faults clock cutoff catalog n st = (Inr m, st') \<Longrightarrow>
   m = n + int (length (filter (\<lambda>(k, session). is_expired cutoff session = Inr True) catalog))"
proof (induction catalog arbitrary: n st)
  case Nil
  then show ?case by simp
next
  case (Cons a catalog)
  obtain k session where a: "a = (k, session)" by (cases a)
  show ?case
  proof (cases "is_expired cutoff session")
    case (Inl err)
    with Cons.prems a show ?thesis by simp
  next
    case (Inr b)
    show ?thesis
    proof (cases b)
      case True
      obtain x st1 where ar: "archive_session e (faults k) (clock k) k session st = (x, st1)"
        by (cases "archive_session e (faults k) (clock k) k session st")
      show ?thesis
      proof (cases x)
        case (Inl err)
        with Cons.prems a \<open>is_expired cutoff session = Inr b\<close> True ar show ?thesis by simp
      next
        case (Inr r)
        with Cons.prems a \<open>is_expired cutoff session = Inr b\<close> True ar
        have "run_archive_loop e faults clock cutoff catalog (n + 1) st1 = (Inr m, st')"
          by (simp add: tuple_truthy_def)
        from Cons.IH [OF this] a \<open>is_expired cutoff session = Inr b\<close> True show ?thesis by simp
      qed
    next
      case False
      from Cons.prems a Inr False
      have "run_archive_loop e faults clock cutoff catalog n st = (Inr m, st')" by simp
      from Cons.IH [OF this] a Inr False show ?thesis by simp
    qed
  qed
qed

text \<open>
  Claim C1, at the input where the code departs from it. The catalog has two expired
  sessions; the transcript of the first is missing, so its archival fails, and the sweep
  goes on to the second and archives it. The index then holds one entry, and the sweep
  reports 2: \<^verbatim>\<open>if archive_session(key, session):\<close> tests the returned pair, which is
  true for a failure as well.
\<close>

theorem run_archive_counts_failed_archival:
  "archive_session example_env NoFault 5 ''agent:main:b''
       [(''sessionId'', JStr ''s2''), (''updatedAt'', JInt 1000)] sweep_store
     = (Inr (False, Some (TranscriptNotFound ''s2.jsonl'')), sweep_store)
   \<and> handle_run_archive example_env (\<lambda>k. NoFault) (\<lambda>k. 5) 200000000
       [(''retentionDays'', JInt 1)] sweep_store =
     (Success 2 None,
      \<lparr>session_files = [],
       archive_files = [(''s1.jsonl.gz'', ''zhello'')],
       sessions_json =
         Some [(''agent:main:b'', [(''sessionId'', JStr ''s2''), (''updatedAt'', JInt 1000)])],
       index_file = Some \<lparr>sessions =
        [\<lparr>key = ''agent:main:a'', sessionId = JStr ''s1'', label = JStr ''agent:main:a'',
          archivedAt = 5, originalSize = 5, compressedSize = 6, updatedAt = JInt 1000,
          model = JNull, channel = JStr ''signal'', task = JNull\<rparr>], totalSize = 6\<rparr>\<rparr>)"
  by (simp add: handle_run_archive_def cutoff_ms_def sweep_store_def is_expired_def
      archive_session_def tuple_truthy_def example_simps)

subsection \<open>Agent session directories\<close>

text \<open>
  Claim C7, as the code has it. The list \<^verbatim>\<open>get_all_agent_sessions_dirs\<close> returns contains
  the agent id \<^verbatim>\<open>main\<close> exactly when \<^verbatim>\<open>SESSIONS_DIR\<close> exists, or the scan of the agents
  root found a directory \<^verbatim>\<open>main\<close> with a \<^verbatim>\<open>sessions\<close> child, or the agents root does
  not exist; and the list is empty exactly when the agents root exists, the scan found
  no agent directory and \<^verbatim>\<open>SESSIONS_DIR\<close> does not exist.
\<close>

theorem main_listed_iff:
  "(''main'' \<in> fst ` set (get_all_agent_sessions_dirs h)) =
     (sessions_dir_exists h
      \<or> (\<exists>d \<in> set (agents_base_entries h).
            entry_name d = ''main'' \<and> is_dir d \<and> sessions_exists d)
      \<or> \<not> agents_base_exists h)
   \<and> (get_all_agent_sessions_dirs h = []) =
     (agents_base_exists h \<and> \<not> sessions_dir_exists h
      \<and> filter (\<lambda>d. is_dir d \<and> \<not> startswith (entry_name d) ''.'' \<and> sessions_exists d)
           (agents_base_entries h) = [])"
proof
  show "(''main'' \<in> fst ` set (get_all_agent_sessions_dirs h)) =
     (sessions_dir_exists h
      \<or> (\<exists>d \<in> set (agents_base_entries h).
            entry_name d = ''main'' \<and> is_dir d \<and> sessions_exists d)
      \<or> \<not> agents_base_exists h)"
    by (auto simp: get_all_agent_sessions_dirs_def Let_def list_ex_iff startswith_def image_iff)
  show "(get_all_agent_sessions_dirs h = []) =
     (agents_base_exists h \<and> \<not> sessions_dir_exists h
      \<and> filter (\<lambda>d. is_dir d \<and> \<not> startswith (entry_name d) ''.'' \<and> sessions_exists d)
           (agents_base_entries h) = [])"
    by (auto simp: get_all_agent_sessions_dirs_def Let_def list_ex_iff filter_empty_conv)
qed

text \<open>
  The claim as the specification words it fails when the agents root exists and is still
  empty: \<^verbatim>\<open>main\<close> is appended only \<^verbatim>\<open>if SESSIONS_DIR.exists()\<close>, and the caller gets no
  directory at all.
\<close>

theorem no_directory_for_fresh_home_counterexample:
  "get_all_agent_sessions_dirs fresh_home = []
   \<and> ''main'' \<notin> fst ` set (get_all_agent_sessions_dirs fresh_home)"
  by (simp add: get_all_agent_sessions_dirs_def fresh_home_def)

subsection \<open>The label of a Signal direct message\<close>

text \<open>
  Claim C8, as the code has it. For the key
  \<^verbatim>\<open>agent:main:signal:dm:signal:+12345678901\<close>, a session without a stored label that is
  not a group chat gets its label from its origin, not from the key. When the origin is
  an object (a missing origin is the empty object) whose label, or else sender, is the
  string \<^verbatim>\<open>signal:\<close> followed by a number, the label is \<^verbatim>\<open>Signal: \<close> followed by the
  formatted number; when the origin has neither, it is \<^verbatim>\<open>Signal DM\<close>. When the origin
  is not an object, or its label is a true value that is not a string, the resolution
  raises \<^verbatim>\<open>AttributeError\<close>. The number format: eleven digits with a leading 1 give
  \<^verbatim>\<open>+1 XXX XXX XXXX\<close> from the ten digits after the 1; otherwise, unless there are
  exactly ten digits, the result is \<^verbatim>\<open>+\<close> and the digits when the number started with
  \<^verbatim>\<open>+\<close>, and the number as it was given when it did not.
\<close>

theorem signal_dm_label_resolution:
  "(\<not> truthy (dict_get session_data ''label'' (JStr []))
      \<and> dict_get session_data ''chatType'' (JStr []) \<noteq> JStr ''group''
      \<and> dict_get session_data ''origin'' (JObj []) = JObj origin
      \<and> py_or (dict_get origin ''label'' (JStr [])) (dict_get origin ''from'' (JStr []))
          = JStr (''signal:'' @ phone)
    \<longrightarrow> parse_friendly_session_label e ''agent:main:signal:dm:signal:+12345678901'' session_data
          = Inr (''Signal: '' @ format_phone_number phone))
   \<and> (\<not> truthy (dict_get session_data ''label'' (JStr []))
      \<and> dict_get session_data ''chatType'' (JStr []) \<noteq> JStr ''group''
      \<and> dict_get session_data ''origin'' (JObj []) = JObj origin
      \<and> \<not> truthy (py_or (dict_get origin ''label'' (JStr [])) (dict_get origin ''from'' (JStr [])))
    \<longrightarrow> parse_friendly_session_label e ''agent:main:signal:dm:signal:+12345678901'' session_data
          = Inr ''Signal DM'')
   \<and> (\<not> truthy (dict_get session_data ''label'' (JStr []))
      \<and> dict_get session_data ''chatType'' (JStr []) \<noteq> JStr ''group''
      \<and> (\<forall>kvs. dict_get session_data ''origin'' (JObj []) \<noteq> JObj kvs)
    \<longrightarrow> parse_friendly_session_label e ''agent:main:signal:dm:signal:+12345678901'' session_data
          = Inl AttributeError)
   \<and> (\<not> truthy (dict_get session_data ''label'' (JStr []))
      \<and> dict_get session_data ''chatType'' (JStr []) \<noteq> JStr ''group''
      \<and> dict_get session_data ''origin'' (JObj []) = JObj origin
      \<and> truthy (py_or (dict_get origin ''label'' (JStr [])) (dict_get origin ''from'' (JStr [])))
      \<and> (\<forall>s. py_or (dict_get origin ''label'' (JStr [])) (dict_get origin ''from'' (JStr []))
               \<noteq> JStr s)
    \<longrightarrow> parse_friendly_session_label e ''agent:main:signal:dm:signal:+12345678901'' session_data
          = Inl AttributeError)
   \<and> (filter isdigit phone = CHR ''1'' # d \<and> length d = 10
    \<longrightarrow> format_phone_number phone
          = ''+1 '' @ take 3 d @ '' '' @ take 3 (drop 3 d) @ '' '' @ drop 6 d)
   \<and> (length (filter isdigit phone) \<noteq> 10
      \<and> (length (filter isdigit phone) \<noteq> 11 \<or> \<not> startswith (filter isdigit phone) ''1'')
    \<longrightarrow> format_phone_number phone
          = (if startswith phone ''+'' then ''+'' @ filter isdigit phone else phone))"
proof -
  let ?key = "''agent:main:signal:dm:signal:+12345678901''"
  have sig: "str_in '':signal:'' ?key" by simp
  have grp: "\<not> str_in ''group'' ?key" by simp
  have dm: "\<not> truthy (dict_get session_data ''label'' (JStr []))
      \<and> dict_get session_data ''chatType'' (JStr []) \<noteq> JStr ''group''
    \<Longrightarrow> parse_friendly_session_label e ?key session_data
        = signal_dm_label (dict_get session_data ''origin'' (JObj []))"
    unfolding parse_friendly_session_label_def kept_label_def Let_def
    using sig grp by (simp del: str_in.simps)
  have c1: "\<not> truthy (dict_get session_data ''label'' (JStr []))
      \<and> dict_get session_data ''chatType'' (JStr []) \<noteq> JStr ''group''
      \<and> dict_get session_data ''origin'' (JObj []) = JObj origin
      \<and> py_or (dict_get origin ''label'' (JStr [])) (dict_get origin ''from'' (JStr []))
          = JStr (''signal:'' @ phone)
    \<longrightarrow> parse_friendly_session_label e ?key session_data
          = Inr (''Signal: '' @ format_phone_number phone)"
    using dm by (simp add: signal_dm_label_def origin_or_def startswith_def)
  have c2: "\<not> truthy (dict_get session_data ''label'' (JStr []))
      \<and> dict_get session_data ''chatType'' (JStr []) \<noteq> JStr ''group''
      \<and> dict_get session_data ''origin'' (JObj []) = JObj origin
      \<and> \<not> truthy (py_or (dict_get origin ''label'' (JStr [])) (dict_get origin ''from'' (JStr [])))
    \<longrightarrow> parse_friendly_session_label e ?key session_data = Inr ''Signal DM''"
    using dm by (simp add: signal_dm_label_def origin_or_def)
  have c3: "\<not> truthy (dict_get session_data ''label'' (JStr []))
      \<and> dict_get session_data ''chatType'' (JStr []) \<noteq> JStr ''group''
      \<and> (\<forall>kvs. dict_get session_data ''origin'' (JObj []) \<noteq> JObj kvs)
    \<longrightarrow> parse_friendly_session_label e ?key session_data = Inl AttributeError"
    using dm by (simp add: signal_dm_label_def origin_or_def split: json.splits)
  have c4: "\<not> truthy (dict_get session_data ''label'' (JStr []))
      \<and> dict_get session_data ''chatType'' (JStr []) \<noteq> JStr ''group''
      \<and> dict_get session_data ''origin'' (JObj []) = JObj origin
      \<and> truthy (py_or (dict_get origin ''label'' (JStr [])) (dict_get origin ''from'' (JStr [])))
      \<and> (\<forall>s. py_or (dict_get origin ''label'' (JStr [])) (dict_get origin ''from'' (JStr []))
               \<noteq> JStr s)
    \<longrightarrow> parse_friendly_session_label e ?key session_data = Inl AttributeError"
    using dm by (simp add: signal_dm_label_def origin_or_def split: json.splits)
  have c5: "filter isdigit phone = CHR ''1'' # d \<and> length d = 10
    \<longrightarrow> format_phone_number phone
          = ''+1 '' @ take 3 d @ '' '' @ take 3 (drop 3 d) @ '' '' @ drop 6 d"
  proof
    assume a: "filter isdigit phone = CHR ''1'' # d \<and> length d = 10"
    then have "phone \<noteq> []" by auto
    with a show "format_phone_number phone
          = ''+1 '' @ take 3 d @ '' '' @ take 3 (drop 3 d) @ '' '' @ drop 6 d"
      by (simp add: format_phone_number_def startswith_def Let_def)
  qed
  have c6: "length (filter isdigit phone) \<noteq> 10
      \<and> (length (filter isdigit phone) \<noteq> 11 \<or> \<not> startswith (filter isdigit phone) ''1'')
    \<longrightarrow> format_phone_number phone
          = (if startswith phone ''+'' then ''+'' @ filter isdigit phone else phone)"
    by (auto simp add: format_phone_number_def startswith_def Let_def)
  from c1 c2 c3 c4 c5 c6 show ?thesis by blast
qed


theorem signal_dm_label_witness:
  "parse_friendly_session_label example_env ''agent:main:signal:dm:signal:+12345678901''
     [(''origin'', JObj [(''label'', JStr ''signal:+12345678901'')])]
     = Inr ''Signal: +1 234 567 8901''
   \<and> parse_friendly_session_label example_env ''agent:main:signal:dm:signal:+12345678901'' []
     = Inr ''Signal DM''
   \<and> parse_friendly_session_label example_env ''agent:main:signal:dm:signal:+12345678901''
       [(''origin'', JNull)]
     = Inl AttributeError
   \<and> parse_friendly_session_label example_env ''agent:main:signal:dm:signal:+12345678901''
       [(''origin'', JObj [(''label'', JInt 5)])]
     = Inl AttributeError
   \<and> format_phone_number ''+12345678901'' = ''+1 234 567 8901''
   \<and> format_phone_number ''12-34'' = ''12-34''"
proof -
  let ?key = "''agent:main:signal:dm:signal:+12345678901''"
  let ?origin = "[(''label'', JStr ''signal:+12345678901'')]"
  let ?data = "[(''origin'', JObj ?origin)]"
  let ?bad = "[(''label'', JInt 5)]"
  have h1: "\<not> truthy (dict_get ?data ''label'' (JStr []))
      \<and> dict_get ?data ''chatType'' (JStr []) \<noteq> JStr ''group''
      \<and> dict_get ?data ''origin'' (JObj []) = JObj ?origin
      \<and> py_or (dict_get ?origin ''label'' (JStr [])) (dict_get ?origin ''from'' (JStr []))
          = JStr (''signal:'' @ ''+12345678901'')"
    by (simp add: dict_get_def py_or_def)
  have h2: "\<not> truthy (dict_get [] ''label'' (JStr []))
      \<and> dict_get [] ''chatType'' (JStr []) \<noteq> JStr ''group''
      \<and> dict_get [] ''origin'' (JObj []) = JObj []
      \<and> \<not> truthy (py_or (dict_get [] ''label'' (JStr [])) (dict_get [] ''from'' (JStr [])))"
    by (simp add: dict_get_def py_or_def)
  have h3: "\<not> truthy (dict_get [(''origin'', JNull)] ''label'' (JStr []))
      \<and> dict_get [(''origin'', JNull)] ''chatType'' (JStr []) \<noteq> JStr ''group''
      \<and> (\<forall>kvs. dict_get [(''origin'', JNull)] ''origin'' (JObj []) \<noteq> JObj kvs)"
    by (simp add: dict_get_def)
  have h4: "\<not> truthy (dict_get [(''origin'', JObj ?bad)] ''label'' (JStr []))
      \<and> dict_get [(''origin'', JObj ?bad)] ''chatType'' (JStr []) \<noteq> JStr ''group''
      \<and> dict_get [(''origin'', JObj ?bad)] ''origin'' (JObj []) = JObj ?bad
      \<and> truthy (py_or (dict_get ?bad ''label'' (JStr [])) (dict_get ?bad ''from'' (JStr [])))
      \<and> (\<forall>s. py_or (dict_get ?bad ''label'' (JStr [])) (dict_get ?bad ''from'' (JStr []))
               \<noteq> JStr s)"
    by (simp add: dict_get_def py_or_def)
  have h5: "filter isdigit ''+12345678901'' = CHR ''1'' # ''2345678901''
      \<and> length ''2345678901'' = 10"
    by (simp add: isdigit_def)
  have h6: "length (filter isdigit ''12-34'') \<noteq> 10
      \<and> (length (filter isdigit ''12-34'') \<noteq> 11 \<or> \<not> startswith (filter isdigit ''12-34'') ''1'')"
    by (simp add: isdigit_def)
  have r5: "format_phone_number ''+12345678901'' = ''+1 234 567 8901''"
    using signal_dm_label_resolution
      [of "[]" "[]" "''+12345678901''" example_env "''2345678901''"] h5
    by simp
  have r1: "parse_friendly_session_label example_env ?key ?data
     = Inr (''Signal: '' @ format_phone_number ''+12345678901'')"
    using signal_dm_label_resolution
      [of ?data ?origin "''+12345678901''" example_env "''2345678901''"] h1
    by blast
  have r2: "parse_friendly_session_label example_env ?key [] = Inr ''Signal DM''"
    using signal_dm_label_resolution
      [of "[]" "[]" "''+12345678901''" example_env "''2345678901''"] h2
    by blast
  have r3: "parse_friendly_session_label example_env ?key [(''origin'', JNull)]
     = Inl AttributeError"
    using signal_dm_label_resolution
      [of "[(''origin'', JNull)]" "[]" "''+12345678901''" example_env "''2345678901''"] h3
    by blast
  have r4: "parse_friendly_session_label example_env ?key [(''origin'', JObj ?bad)]
     = Inl AttributeError"
    using signal_dm_label_resolution
      [of "[(''origin'', JObj ?bad)]" ?bad "''+12345678901''" example_env "''2345678901''"] h4
    by blast
  have r6: "format_phone_number ''12-34'' = ''12-34''"
    using signal_dm_label_resolution [of "[]" "[]" "''12-34''" example_env "[]"] h6
    by (simp add: startswith_def)
  from r1 r2 r3 r4 r5 r6 show ?thesis by simp
qed

text \<open>
  The claim as the specification words it fails: without a stored label and without an
  origin the label is \<^verbatim>\<open>Signal DM\<close>; with the number as origin label all ten digits
  after the 1 are kept; and a number without a leading \<^verbatim>\<open>+\<close> that is not formatted comes
  back as it was given, not reduced to its digits.
\<close>

theorem signal_dm_label_counterexample:
  "parse_friendly_session_label example_env ''agent:main:signal:dm:signal:+12345678901'' []
     \<noteq> Inr ''Signal: +1 234 567 890''
   \<and> parse_friendly_session_label example_env ''agent:main:signal:dm:signal:+12345678901''
       [(''origin'', JObj [(''label'', JStr ''signal:+12345678901'')])]
     \<noteq> Inr ''Signal: +1 234 567 890''
   \<and> format_phone_number ''12-34'' \<noteq> ''1234''"
  by (simp add: parse_friendly_session_label_def kept_label_def signal_dm_label_def origin_or_def
        dict_get_def py_or_def startswith_def format_phone_number_def isdigit_def Let_def)

subsection \<open>Run sessions in the session list\<close>

lemma transform_sessions_skips_runs:
  "transform_sessions e cron_names main_agent_name raw_sessions =
   transform_sessions e cron_names main_agent_name
     (filter (\<lambda>(session_key, s). \<not> str_in '':run:'' session_key) raw_sessions)"
proof (induction raw_sessions)
  case Nil
  show ?case by simp
next
  case (Cons a raw_sessions)
  obtain session_key s where a: "a = (session_key, s)" by (cases a)
  show ?case
  proof (cases "str_in '':run:'' session_key")
    case True
    with a show ?thesis by (simp del: str_in.simps add: Cons.IH [symmetric])
  next
    case False
    have "transform_sessions e cron_names main_agent_name
            (filter (\<lambda>(session_key, s). \<not> str_in '':run:'' session_key) (a # raw_sessions))
          = transform_sessions e cron_names main_agent_name
              ((session_key, s) #
               filter (\<lambda>(session_key, s). \<not> str_in '':run:'' session_key) raw_sessions)"
      using a False by (simp del: str_in.simps)
    also have "\<dots> = transform_sessions e cron_names main_agent_name (a # raw_sessions)"
      using a False by (simp del: str_in.simps add: Cons.IH [symmetric] split: sum.splits)
    finally show ?thesis by simp
  qed
qed

lemma transform_session_key:
  "transform_session e cron_names main_agent_name (session_key, s) = Inr row \<Longrightarrow>
   dict_get row ''key'' JNull = JStr session_key"
proof -
  assume a: "transform_session e cron_names main_agent_name (session_key, s) = Inr row"
  then obtain agent_name session_label recently_active where
    "row = [(''id'', py_or (dict_get s ''sessionId'' JNull) (JStr session_key)),
                         (''key'', JStr session_key),
                         (''label'', session_label),
                         (''agentName'', (case agent_name of None \<Rightarrow> JNull | Some a \<Rightarrow> JStr a)),
                         (''status'',
                          JStr (if recently_active then ''running''
                                else if truthy (dict_get s ''abortedLastRun'' JNull) then ''failed''
                                else ''done'')),
                         (''updatedAt'', dict_get s ''updatedAt'' (JInt 0)),
                         (''channel'',
                          py_or (dict_get s ''channel'' JNull)
                                (dict_get s ''lastChannel'' (JStr ''unknown''))),
                         (''model'', dict_get s ''model'' (JStr ''unknown'')),
                         (''totalTokens'', dict_get s ''totalTokens'' (JInt 0)),
                         (''contextTokens'', dict_get s ''contextTokens'' (JInt 200000)),
                         (''sizeBytes'', dict_get s ''sizeBytes'' (JInt 0)),
                         (''sizeFormatted'',
                          dict_get s ''sizeFormatted'' (JStr [CHR 0xE2, CHR 0x80, CHR 0x94])),
                         (''task'', dict_get s ''task'' JNull)]"
    unfolding transform_session_def
    by (simp split: sum.splits prod.splits) blast
  then show ?thesis
    by (simp add: dict_get_def)
qed



lemma transform_sessions_keys:
  "transform_sessions e cron_names main_agent_name raw_sessions = Inr rows \<Longrightarrow>
   map (\<lambda>row. dict_get row ''key'' JNull) rows =
     map JStr (filter (\<lambda>k. \<not> str_in '':run:'' k) (map fst raw_sessions))"
proof (induction raw_sessions arbitrary: rows)
  case Nil
  then show ?case by simp
next
  case (Cons a raw_sessions)
  obtain session_key s where a: "a = (session_key, s)" by (cases a)
  show ?case
  proof (cases "str_in '':run:'' session_key")
    case True
    with Cons.prems a
    have "transform_sessions e cron_names main_agent_name raw_sessions = Inr rows"
      by (simp del: str_in.simps)
    from Cons.IH [OF this] True a show ?thesis by (simp del: str_in.simps)
  next
    case False
    with Cons.prems a obtain row rest where
      row: "transform_session e cron_names main_agent_name (session_key, s) = Inr row"
      and rest: "transform_sessions e cron_names main_agent_name raw_sessions = Inr rest"
      and rows: "rows = row # rest"
      by (auto simp del: str_in.simps split: sum.splits)
    from Cons.IH [OF rest] transform_session_key [OF row] False rows a
    show ?thesis by (simp del: str_in.simps)
  qed
qed

lemma resolve_cron:
  "resolve_agent_and_label example_env [(''job1'', ''Nightly'')] ''Main''
     ''agent:main:cron:job1'' [(''updatedAt'', JInt 3000)]
   = Inr (Some ''cron'', JStr ''Cron: Nightly'')"
  by (simp add: resolve_agent_and_label_def Let_def dict_get_def py_or_def first_part_def
      last_part_def subagent_names_def)



lemma label_signal:
  "parse_friendly_session_label example_env ''agent:main:signal:dm:signal:+12345678901''
     [(''origin'', JObj [(''label'', JStr ''signal:+12345678901'')]), (''updatedAt'', JInt 1000)]
   = Inr ''Signal: +1 234 567 8901''"
  by (simp add: parse_friendly_session_label_def kept_label_def signal_dm_label_def origin_or_def
        dict_get_def py_or_def startswith_def format_phone_number_def isdigit_def Let_def)


lemma resolve_signal:
  "resolve_agent_and_label example_env [(''job1'', ''Nightly'')] ''Main''
     ''agent:main:signal:dm:signal:+12345678901''
     [(''origin'', JObj [(''label'', JStr ''signal:+12345678901'')]), (''updatedAt'', JInt 1000)]
   = Inr (Some ''main'', JStr ''Signal: +1 234 567 8901'')"
  using label_signal
  by (simp add: resolve_agent_and_label_def Let_def dict_get_def py_or_def no_agent_def
      subagent_names_def)

lemma row_cron:
  "transform_session example_env [(''job1'', ''Nightly'')] ''Main''
     (''agent:main:cron:job1'', [(''updatedAt'', JInt 3000)])
   = Inr [(''id'', JStr ''agent:main:cron:job1''),
         (''key'', JStr ''agent:main:cron:job1''),
         (''label'', JStr ''Cron: Nightly''), (''agentName'', JStr ''cron''),
         (''status'', JStr ''done''), (''updatedAt'', JInt 3000),
         (''channel'', JStr ''unknown''), (''model'', JStr ''unknown''),
         (''totalTokens'', JInt 0), (''contextTokens'', JInt 200000),
         (''sizeBytes'', JInt 0),
         (''sizeFormatted'', JStr [CHR 0xE2, CHR 0x80, CHR 0x94]),
         (''task'', JNull)]"
  by (simp add: transform_session_def resolve_cron dict_get_def py_or_def)

lemma row_signal:
  "transform_session example_env [(''job1'', ''Nightly'')] ''Main''
     (''agent:main:signal:dm:signal:+12345678901'',
       [(''origin'', JObj [(''label'', JStr ''signal:+12345678901'')]),
        (''updatedAt'', JInt 1000)])
   = Inr [(''id'', JStr ''agent:main:signal:dm:signal:+12345678901''),
         (''key'', JStr ''agent:main:signal:dm:signal:+12345678901''),
         (''label'', JStr ''Signal: +1 234 567 8901''),
         (''agentName'', JStr ''main''), (''status'', JStr ''done''),
         (''updatedAt'', JInt 1000), (''channel'', JStr ''unknown''),
         (''model'', JStr ''unknown''), (''totalTokens'', JInt 0),
         (''contextTokens'', JInt 200000), (''sizeBytes'', JInt 0),
         (''sizeFormatted'', JStr [CHR 0xE2, CHR 0x80, CHR 0x94]),
         (''task'', JNull)]"
  by (simp add: transform_session_def resolve_signal dict_get_def py_or_def)

lemma transform_example_raw_sessions:
  "transform_sessions example_env [(''job1'', ''Nightly'')] ''Main'' example_raw_sessions =
   Inr [[(''id'', JStr ''agent:main:cron:job1''),
         (''key'', JStr ''agent:main:cron:job1''),
         (''label'', JStr ''Cron: Nightly''), (''agentName'', JStr ''cron''),
         (''status'', JStr ''done''), (''updatedAt'', JInt 3000),
         (''channel'', JStr ''unknown''), (''model'', JStr ''unknown''),
         (''totalTokens'', JInt 0), (''contextTokens'', JInt 200000),
         (''sizeBytes'', JInt 0),
         (''sizeFormatted'', JStr [CHR 0xE2, CHR 0x80, CHR 0x94]),
         (''task'', JNull)],
        [(''id'', JStr ''agent:main:signal:dm:signal:+12345678901''),
         (''key'', JStr ''agent:main:signal:dm:signal:+12345678901''),
         (''label'', JStr ''Signal: +1 234 567 8901''),
         (''agentName'', JStr ''main''), (''status'', JStr ''done''),
         (''updatedAt'', JInt 1000), (''channel'', JStr ''unknown''),
         (''model'', JStr ''unknown''), (''totalTokens'', JInt 0),
         (''contextTokens'', JInt 200000), (''sizeBytes'', JInt 0),
         (''sizeFormatted'', JStr [CHR 0xE2, CHR 0x80, CHR 0x94]),
         (''task'', JNull)]]"
  by (simp add: example_raw_sessions_def row_cron row_signal)

text \<open>
  Claim C9. \<^verbatim>\<open>transform_sessions\<close> gives the same result, rows or exception, as on the
  raw sessions without those whose key contains \<^verbatim>\<open>:run:\<close>, whatever else such a session
  holds; and when it returns rows, their keys are the keys of the other raw sessions, in
  order, so that no row has a key containing \<^verbatim>\<open>:run:\<close>.
\<close>

theorem run_sessions_are_omitted:
  "transform_sessions e cron_names main_agent_name raw_sessions =
     transform_sessions e cron_names main_agent_name
       (filter (\<lambda>(session_key, s). \<not> str_in '':run:'' session_key) raw_sessions)
   \<and> (transform_sessions e cron_names main_agent_name raw_sessions = Inr rows
      \<longrightarrow> map (\<lambda>row. dict_get row ''key'' JNull) rows =
            map JStr (filter (\<lambda>k. \<not> str_in '':run:'' k) (map fst raw_sessions))
          \<and> (\<forall>row \<in> set rows. \<exists>k. dict_get row ''key'' JNull = JStr k \<and> \<not> str_in '':run:'' k))"
proof (intro conjI impI)
  show "transform_sessions e cron_names main_agent_name raw_sessions =
     transform_sessions e cron_names main_agent_name
       (filter (\<lambda>(session_key, s). \<not> str_in '':run:'' session_key) raw_sessions)"
    by (rule transform_sessions_skips_runs)
next
  assume rows: "transform_sessions e cron_names main_agent_name raw_sessions = Inr rows"
  then show keys: "map (\<lambda>row. dict_get row ''key'' JNull) rows =
      map JStr (filter (\<lambda>k. \<not> str_in '':run:'' k) (map fst raw_sessions))"
    by (rule transform_sessions_keys)
  have "\<forall>v \<in> set (map (\<lambda>row. dict_get row ''key'' JNull) rows).
          \<exists>k. v = JStr k \<and> \<not> str_in '':run:'' k"
    unfolding keys by (auto simp del: str_in.simps)
  then show "\<forall>row \<in> set rows. \<exists>k. dict_get row ''key'' JNull = JStr k \<and> \<not> str_in '':run:'' k"
    by (simp del: str_in.simps)
qed

theorem run_sessions_are_omitted_witness:
  "map (\<lambda>row. dict_get row ''key'' JNull)
     [[(''id'', JStr ''agent:main:cron:job1''),
       (''key'', JStr ''agent:main:cron:job1''),
       (''label'', JStr ''Cron: Nightly''), (''agentName'', JStr ''cron''),
       (''status'', JStr ''done''), (''updatedAt'', JInt 3000),
       (''channel'', JStr ''unknown''), (''model'', JStr ''unknown''),
       (''totalTokens'', JInt 0), (''contextTokens'', JInt 200000),
       (''sizeBytes'', JInt 0),
       (''sizeFormatted'', JStr [CHR 0xE2, CHR 0x80, CHR 0x94]),
       (''task'', JNull)],
      [(''id'', JStr ''agent:main:signal:dm:signal:+12345678901''),
       (''key'', JStr ''agent:main:signal:dm:signal:+12345678901''),
       (''label'', JStr ''Signal: +1 234 567 8901''),
       (''agentName'', JStr ''main''), (''status'', JStr ''done''),
       (''updatedAt'', JInt 1000), (''channel'', JStr ''unknown''),
       (''model'', JStr ''unknown''), (''totalTokens'', JInt 0),
       (''contextTokens'', JInt 200000), (''sizeBytes'', JInt 0),
       (''sizeFormatted'', JStr [CHR 0xE2, CHR 0x80, CHR 0x94]),
       (''task'', JNull)]]
   = map JStr (filter (\<lambda>k. \<not> str_in '':run:'' k) (map fst example_raw_sessions))
   \<and> length example_raw_sessions = 3"
proof (intro conjI)
  show "length example_raw_sessions = 3"
    by (simp add: example_raw_sessions_def)
qed (rule run_sessions_are_omitted
       [of example_env "[(''job1'', ''Nightly'')]" "''Main''" example_raw_sessions,
        THEN conjunct2, THEN mp, OF transform_example_raw_sessions, THEN conjunct1])

end
